theory Spec2Isabelle
  imports Complex_Main "HOL-Library.AList"
begin

section \<open>Data model\<close>

text \<open>
  The scripts move JSON documents around: \<^verbatim>\<open>json.loads\<close> and \<^verbatim>\<open>response.json()\<close>
  produce Python values built from \<^verbatim>\<open>None\<close>, \<^verbatim>\<open>bool\<close>, \<^verbatim>\<open>int\<close>,
  \<^verbatim>\<open>float\<close>, \<^verbatim>\<open>str\<close>, \<^verbatim>\<open>list\<close> and \<^verbatim>\<open>dict\<close>. A Python float is a
  double: a rational number, an infinity or a NaN. A \<^verbatim>\<open>dict\<close> keeps its insertion order,
  so it is an association list; the characters of a HOL string stand for the code
  points of the Python string.
\<close>

datatype pyfloat = Finite rat | PosInf | NegInf | NaN

datatype json =
    JNull
  | JBool bool
  | JInt int
  | JFloat pyfloat
  | JStr string
  | JArr "json list"
  | JObj "(string \<times> json) list"

type_synonym row = "(string \<times> json) list"

text \<open>The exceptions the scripts can raise; \<open>KeyError\<close> carries the missing key.\<close>

datatype error = AttributeError | TypeError | ValueError | KeyError string

text \<open>\<^verbatim>\<open>d.get(k)\<close> and \<^verbatim>\<open>d.get(k, default)\<close> on a dict.\<close>

definition dict_get_default :: "row \<Rightarrow> string \<Rightarrow> json \<Rightarrow> json" where
  "dict_get_default d k dflt = (case map_of d k of Some v \<Rightarrow> v | None \<Rightarrow> dflt)"

definition dict_get :: "row \<Rightarrow> string \<Rightarrow> json" where
  "dict_get d k = dict_get_default d k JNull"

text \<open>
  \<^verbatim>\<open>x.get(k, default)\<close> on an arbitrary value: only a dict has the method, every other
  value raises \<^verbatim>\<open>AttributeError\<close>.
\<close>

fun py_get_default :: "json \<Rightarrow> string \<Rightarrow> json \<Rightarrow> error + json" where
  "py_get_default (JObj d) k dflt = Inr (dict_get_default d k dflt)"
| "py_get_default _ k dflt = Inl AttributeError"

definition py_get :: "json \<Rightarrow> string \<Rightarrow> error + json" where
  "py_get x k = py_get_default x k JNull"

text \<open>\<^verbatim>\<open>x.items()\<close>: again only a dict has the method.\<close>

fun py_items :: "json \<Rightarrow> error + row" where
  "py_items (JObj d) = Inr d"
| "py_items _ = Inl AttributeError"

text \<open>
  \<^verbatim>\<open>for x in v\<close>: a list yields its elements, a string its characters, a dict its keys;
  any other value is not iterable.
\<close>

fun py_iter :: "json \<Rightarrow> error + json list" where
  "py_iter (JArr xs) = Inr xs"
| "py_iter (JStr s) = Inr (map (\<lambda>c. JStr [c]) s)"
| "py_iter (JObj d) = Inr (map (\<lambda>kv. JStr (fst kv)) d)"
| "py_iter _ = Inl TypeError"

text \<open>\<^verbatim>\<open>d[k] = v\<close> on a dict is \<^const>\<open>AList.update\<close>; \<^verbatim>\<open>d.update(e)\<close> stores the
  entries of \<open>e\<close> one after the other.\<close>

definition dict_update :: "row \<Rightarrow> row \<Rightarrow> row" where
  "dict_update e d = fold (\<lambda>kv. AList.update (fst kv) (snd kv)) e d"

section \<open>Transform: flattening\<close>

subsection \<open>Carts\<close>

definition cart_info :: "row \<Rightarrow> row" where
  "cart_info cart_data =
     [(''cart_id'', dict_get cart_data ''id''),
      (''user_id'', dict_get cart_data ''userId''),
      (''total_cart_value'', dict_get cart_data ''total''),
      (''discounted_total_cart_value'', dict_get cart_data ''discountedTotal''),
      (''total_products'', dict_get cart_data ''totalProducts''),
      (''total_quantity'', dict_get cart_data ''totalQuantity'')]"

text \<open>The body of the loop over \<^verbatim>\<open>products\<close>: \<^verbatim>\<open>product.get\<close> needs a dict.\<close>

fun cart_row :: "row \<Rightarrow> json \<Rightarrow> error + row" where
  "cart_row info (JObj product) =
     Inr (dict_update
       [(''product_id'', dict_get product ''id''),
        (''product_title'', dict_get product ''title''),
        (''product_price'', dict_get product ''price''),
        (''product_quantity'', dict_get product ''quantity''),
        (''product_total'', dict_get product ''total''),
        (''product_discount_percentage'', dict_get product ''discountPercentage''),
        (''product_discounted_total'', dict_get product ''discountedTotal''),
        (''product_thumbnail'', dict_get product ''thumbnail'')]
       info)"
| "cart_row info _ = Inl AttributeError"

fun expand_rows :: "row \<Rightarrow> json list \<Rightarrow> row list \<Rightarrow> error + row list" where
  "expand_rows info [] expanded_rows = Inr expanded_rows"
| "expand_rows info (product # products) expanded_rows =
     (case cart_row info product of
        Inl e \<Rightarrow> Inl e
      | Inr r \<Rightarrow> expand_rows info products (expanded_rows @ [r]))"

text \<open>
  The flattening functions are annotated \<^verbatim>\<open>nested_json: Dict[str, Any]\<close> and their one
  caller passes a value it has already used as a dict, so \<open>nested_json\<close> is a dict here.
  Its \<^verbatim>\<open>data\<close> entry is an arbitrary value: \<^verbatim>\<open>cart_data.get\<close> raises on a non-dict.
\<close>

definition flatten_cart_json :: "row \<Rightarrow> string \<Rightarrow> error + row list" where
  "flatten_cart_json nested_json separator =
     (case dict_get_default nested_json ''data'' (JObj []) of
        JObj cart_data \<Rightarrow>
          (case py_iter (dict_get_default cart_data ''products'' (JArr [])) of
             Inl e \<Rightarrow> Inl e
           | Inr products \<Rightarrow> expand_rows (cart_info cart_data) products [])
      | _ \<Rightarrow> Inl AttributeError)"

subsection \<open>Users and products\<close>

text \<open>\<^verbatim>\<open>isinstance(v, (str, int, float, bool))\<close>; \<^verbatim>\<open>None\<close> is not an instance.\<close>

fun is_scalar :: "json \<Rightarrow> bool" where
  "is_scalar (JStr _) = True"
| "is_scalar (JInt _) = True"
| "is_scalar (JFloat _) = True"
| "is_scalar (JBool _) = True"
| "is_scalar _ = False"

text \<open>The dict comprehension over the scalar fields, with the given prefix.\<close>

definition scalar_fields :: "string \<Rightarrow> row \<Rightarrow> row" where
  "scalar_fields prefix data =
     dict_update (map (\<lambda>kv. (prefix @ fst kv, snd kv)) (filter (\<lambda>kv. is_scalar (snd kv)) data)) []"

text \<open>One round of the second loop: a dict stores its entries, a list its length.\<close>

fun nested_field :: "string \<Rightarrow> string \<times> json \<Rightarrow> row \<Rightarrow> row" where
  "nested_field prefix (k, JObj v) flattened =
     fold (\<lambda>sub. AList.update (prefix @ k @ ''_'' @ fst sub) (snd sub)) v flattened"
| "nested_field prefix (k, JArr v) flattened =
     AList.update (prefix @ k @ ''_count'') (JInt (int (length v))) flattened"
| "nested_field prefix (k, _) flattened = flattened"

definition flatten_user_json :: "row \<Rightarrow> string \<Rightarrow> error + row list" where
  "flatten_user_json nested_json separator =
     (case py_items (dict_get_default nested_json ''data'' (JObj [])) of
        Inl e \<Rightarrow> Inl e
      | Inr user_data \<Rightarrow>
          Inr [fold (nested_field ''user_'') user_data (scalar_fields ''user_'' user_data)])"

definition flatten_product_json :: "row \<Rightarrow> string \<Rightarrow> error + row list" where
  "flatten_product_json nested_json separator =
     (case py_items (dict_get_default nested_json ''data'' (JObj [])) of
        Inl e \<Rightarrow> Inl e
      | Inr product_data \<Rightarrow>
          Inr [fold (nested_field ''product_'') product_data
                 (scalar_fields ''product_'' product_data)])"

subsection \<open>The generic fallback\<close>

text \<open>
  \<^verbatim>\<open>internal_flatten\<close> returns a dict for a dict, a list for a list and any other value
  unchanged; \<open>flatten_dict\<close> is its loop over the items of a dict, with the dict
  \<open>flattened\<close> built so far, and \<open>flatten_list\<close> its list comprehension.
\<close>

fun internal_flatten :: "string \<Rightarrow> json \<Rightarrow> string \<Rightarrow> json"
  and flatten_dict :: "string \<Rightarrow> row \<Rightarrow> string \<Rightarrow> row \<Rightarrow> row"
  and flatten_list :: "string \<Rightarrow> json list \<Rightarrow> string \<Rightarrow> json list" where
  "internal_flatten separator (JObj x) name = JObj (flatten_dict separator x name [])"
| "internal_flatten separator (JArr x) name = JArr (flatten_list separator x name)"
| "internal_flatten separator x name = x"
| "flatten_dict separator [] name flattened = flattened"
| "flatten_dict separator ((key, value) # rest) name flattened =
     flatten_dict separator rest name
       (case internal_flatten separator value (name @ key @ separator) of
          JObj sub_results \<Rightarrow> dict_update sub_results flattened
        | sub_results \<Rightarrow> AList.update (name @ key) sub_results flattened)"
| "flatten_list separator [] name = []"
| "flatten_list separator (item # items) name =
     internal_flatten separator item name # flatten_list separator items name"

text \<open>On a dict the result of \<^verbatim>\<open>internal_flatten\<close> is a dict, so \<^verbatim>\<open>[result]\<close> is returned.\<close>

definition flatten_general_json :: "row \<Rightarrow> string \<Rightarrow> row list" where
  "flatten_general_json nested_json separator = [flatten_dict separator nested_json [] []]"

definition flatten_json :: "row \<Rightarrow> string \<Rightarrow> string \<Rightarrow> error + row list" where
  "flatten_json nested_json data_type separator =
     (if data_type = ''carts'' then flatten_cart_json nested_json separator
      else if data_type = ''users'' then flatten_user_json nested_json separator
      else if data_type = ''products'' then flatten_product_json nested_json separator
      else Inr (flatten_general_json nested_json separator))"

section \<open>Transform: the table and its enrichment\<close>

text \<open>
  A \<^verbatim>\<open>pandas.DataFrame\<close>: its column labels in order and its rows, each row holding one
  cell per column. A cell that a record does not provide is NaN, pandas' missing value.
\<close>

record dataframe =
  columns :: "string list"
  rows :: "row list"

definition cell :: "row \<Rightarrow> string \<Rightarrow> json" where
  "cell r c = dict_get_default r c (JFloat NaN)"

text \<open>\<^verbatim>\<open>pd.DataFrame(records)\<close>: the columns are the keys in order of first appearance.\<close>

definition record_keys :: "row list \<Rightarrow> string list" where
  "record_keys records =
     fold (\<lambda>r cs. fold (\<lambda>kv cs. if fst kv \<in> set cs then cs else cs @ [fst kv]) r cs) records []"

text \<open>
  pandas then chooses how to store each column. A column whose entries are all numbers,
  \<^verbatim>\<open>None\<close> or missing is stored as 64-bit floats, unless every entry is an integer
  (it stays an integer column) or every entry is \<^verbatim>\<open>None\<close> (it stays a column of
  objects): there an integer \<open>n\<close> becomes the float \<open>n.0\<close>, and \<^verbatim>\<open>None\<close> becomes NaN.
  Every other column keeps the values of the records. The integers are taken to be in
  the range that a float holds exactly.
\<close>

fun number_or_none :: "json \<Rightarrow> bool" where
  "number_or_none (JInt _) = True"
| "number_or_none (JFloat _) = True"
| "number_or_none JNull = True"
| "number_or_none _ = False"

fun is_int :: "json \<Rightarrow> bool" where
  "is_int (JInt _) = True"
| "is_int _ = False"

fun as_float :: "json \<Rightarrow> json" where
  "as_float (JInt n) = JFloat (Finite (of_int n))"
| "as_float JNull = JFloat NaN"
| "as_float v = v"

definition float_column :: "json list \<Rightarrow> bool" where
  "float_column vs =
     (list_all number_or_none vs \<and> \<not> list_all is_int vs \<and> \<not> list_all (\<lambda>v. v = JNull) vs)"

definition stored :: "row list \<Rightarrow> string \<Rightarrow> json \<Rightarrow> json" where
  "stored records c v =
     (if float_column (map (\<lambda>r. cell r c) records) then as_float v else v)"

definition DataFrame :: "row list \<Rightarrow> dataframe" where
  "DataFrame records =
     \<lparr>columns = record_keys records,
      rows = map (\<lambda>r. map (\<lambda>c. (c, stored records c (cell r c))) (record_keys records))
               records\<rparr>"

text \<open>\<^verbatim>\<open>df[c]\<close> raises \<^verbatim>\<open>KeyError\<close> for a label that is not a column.\<close>

definition get_column :: "dataframe \<Rightarrow> string \<Rightarrow> error + json list" where
  "get_column df c =
     (if c \<in> set (columns df) then Inr (map (\<lambda>r. cell r c) (rows df)) else Inl (KeyError c))"

text \<open>\<^verbatim>\<open>df[c] = v\<close> for one value \<open>v\<close>, and \<^verbatim>\<open>df[c] = series\<close> for one value per row.\<close>

definition add_column :: "string \<Rightarrow> string list \<Rightarrow> string list" where
  "add_column c cs = (if c \<in> set cs then cs else cs @ [c])"

definition set_column :: "string \<Rightarrow> json \<Rightarrow> dataframe \<Rightarrow> dataframe" where
  "set_column c v df =
     \<lparr>columns = add_column c (columns df), rows = map (AList.update c v) (rows df)\<rparr>"

definition set_column_values :: "string \<Rightarrow> json list \<Rightarrow> dataframe \<Rightarrow> dataframe" where
  "set_column_values c vs df =
     \<lparr>columns = add_column c (columns df),
      rows = map (\<lambda>rv. AList.update c (snd rv) (fst rv)) (zip (rows df) vs)\<rparr>"

subsection \<open>\<^verbatim>\<open>str\<close>\<close>

definition digit_char :: "nat \<Rightarrow> char" where
  "digit_char d = ''0123456789'' ! (d mod 10)"

fun str_nat :: "nat \<Rightarrow> string" where
  "str_nat n = (if n < 10 then [digit_char n] else str_nat (n div 10) @ [digit_char n])"

declare str_nat.simps [simp del]

definition str_int :: "int \<Rightarrow> string" where
  "str_int i = (if i < 0 then CHR ''-'' # str_nat (nat (- i)) else str_nat (nat i))"

text \<open>
  \<^verbatim>\<open>str(x)\<close> of a cell. A float with an integral value of less than 16 digits that a
  float holds exactly is written with its digits and \<^verbatim>\<open>.0\<close>; zero is left out, its
  sign is not in the model. The text of every other finite float and of a list or dict
  is Python's \<^verbatim>\<open>repr\<close>, which the scripts do not define: it is the parameter \<open>repr\<close>.
\<close>

definition integral_float :: "rat \<Rightarrow> bool" where
  "integral_float q = (q \<noteq> 0 \<and> of_int \<lfloor>q\<rfloor> = q \<and> \<bar>q\<bar> < 9007199254740992)"

fun py_str :: "(json \<Rightarrow> string) \<Rightarrow> json \<Rightarrow> string" where
  "py_str repr (JStr s) = s"
| "py_str repr (JInt n) = str_int n"
| "py_str repr (JBool b) = (if b then ''True'' else ''False'')"
| "py_str repr JNull = ''None''"
| "py_str repr (JFloat NaN) = ''nan''"
| "py_str repr (JFloat PosInf) = ''inf''"
| "py_str repr (JFloat NegInf) = ''-inf''"
| "py_str repr (JFloat (Finite q)) =
     (if integral_float q then str_int \<lfloor>q\<rfloor> @ ''.0'' else repr (JFloat (Finite q)))"
| "py_str repr x = repr x"

subsection \<open>\<^verbatim>\<open>add_audit_columns\<close>\<close>

text \<open>
  \<open>md5_hexdigest s\<close> stands for \<^verbatim>\<open>hashlib.md5(s.encode()).hexdigest()\<close> and
  \<open>current_time\<close> for the one reading \<^verbatim>\<open>datetime.utcnow().isoformat()\<close> of the call.
  The lambda of the carts branch, applied to one row of the table:
\<close>

definition cart_key :: "(string \<Rightarrow> string) \<Rightarrow> (json \<Rightarrow> string) \<Rightarrow> row \<Rightarrow> error + json" where
  "cart_key md5_hexdigest repr r =
     (case map_of r ''user_id'' of
        None \<Rightarrow> Inl (KeyError ''user_id'')
      | Some user_id \<Rightarrow>
          Inr (JStr (md5_hexdigest
            (py_str repr user_id
             @ py_str repr (dict_get_default r ''product_id'' (JStr []))
             @ py_str repr (dict_get_default r ''cart_id'' (JStr []))))))"

fun apply_rows :: "(row \<Rightarrow> error + json) \<Rightarrow> row list \<Rightarrow> error + json list" where
  "apply_rows f [] = Inr []"
| "apply_rows f (r # rs) =
     (case f r of
        Inl e \<Rightarrow> Inl e
      | Inr v \<Rightarrow> (case apply_rows f rs of Inl e \<Rightarrow> Inl e | Inr vs \<Rightarrow> Inr (v # vs)))"

text \<open>
  \<^verbatim>\<open>df.apply(f, axis=1)\<close> followed by the assignment of its result. On a table with no
  rows pandas does not run \<open>f\<close> on a row: it probes \<open>f\<close> with a row of NaN, and when the
  probe raises (here: no \<^verbatim>\<open>user_id\<close> column) the result is a copy of the table,
  which cannot be assigned to one column.
\<close>

definition set_cart_keys ::
  "(string \<Rightarrow> string) \<Rightarrow> (json \<Rightarrow> string) \<Rightarrow> dataframe \<Rightarrow> error + dataframe" where
  "set_cart_keys md5_hexdigest repr df =
     (if rows df = [] then
        (if ''user_id'' \<in> set (columns df) then Inr (set_column_values ''sgk_cart_id'' [] df)
         else Inl ValueError)
      else
        (case apply_rows (cart_key md5_hexdigest repr) (rows df) of
           Inl e \<Rightarrow> Inl e
         | Inr keys \<Rightarrow> Inr (set_column_values ''sgk_cart_id'' keys df)))"

text \<open>\<^verbatim>\<open>df[sgk] = df[c].apply(lambda x: hashlib.md5(str(x).encode()).hexdigest())\<close>\<close>

definition set_hash_column ::
  "(string \<Rightarrow> string) \<Rightarrow> (json \<Rightarrow> string) \<Rightarrow> string \<Rightarrow> string \<Rightarrow> dataframe
     \<Rightarrow> error + dataframe" where
  "set_hash_column md5_hexdigest repr sgk c df =
     (case get_column df c of
        Inl e \<Rightarrow> Inl e
      | Inr xs \<Rightarrow>
          Inr (set_column_values sgk (map (\<lambda>x. JStr (md5_hexdigest (py_str repr x))) xs) df))"

definition audit_columns :: "string \<Rightarrow> dataframe \<Rightarrow> dataframe" where
  "audit_columns current_time df =
     set_column ''source_system_code'' (JStr ''PUBLIC_DUMMYJSON_API'')
       (set_column ''record_update_datetime'' (JStr current_time)
         (set_column ''record_update_name'' (JStr ''Daniel Oselu'')
           (set_column ''record_create_datetime'' (JStr current_time)
             (set_column ''record_create_name'' (JStr ''Daniel Oselu'') df))))"

definition add_audit_columns ::
  "(string \<Rightarrow> string) \<Rightarrow> (json \<Rightarrow> string) \<Rightarrow> string \<Rightarrow> dataframe \<Rightarrow> string
     \<Rightarrow> error + dataframe" where
  "add_audit_columns md5_hexdigest repr current_time df data_type =
     (if data_type = ''products'' then
        set_hash_column md5_hexdigest repr ''sgk_product_id'' ''product_id''
          (audit_columns current_time df)
      else if data_type = ''users'' then
        set_hash_column md5_hexdigest repr ''sgk_user_id'' ''user_id''
          (audit_columns current_time df)
      else if data_type = ''carts'' then
        set_cart_keys md5_hexdigest repr (audit_columns current_time df)
      else Inr (audit_columns current_time df))"

section \<open>Transform: \<^verbatim>\<open>convert_json_to_csv\<close>\<close>

text \<open>
  \<^verbatim>\<open>read_from_gcs\<close> returns \<^verbatim>\<open>content.splitlines()\<close>: the text is cut at every line
  boundary (the ones below 256 are listed), \<^verbatim>\<open>\r\n\<close> counting as one, and a last line
  is kept only when it is not empty.
\<close>

definition is_linebreak :: "char \<Rightarrow> bool" where
  "is_linebreak c = (c \<in> set [CHR 0x0A, CHR 0x0B, CHR 0x0C, CHR 0x0D, CHR 0x1C, CHR 0x1D,
     CHR 0x1E, CHR 0x85])"

fun splitlines_from :: "string \<Rightarrow> string \<Rightarrow> string list" where
  "splitlines_from line [] = (if line = [] then [] else [line])"
| "splitlines_from line (c # cs) =
     (if is_linebreak c
      then line # splitlines_from []
                    (if c = CHR 0x0D \<and> take 1 cs = [CHR 0x0A] then tl cs else cs)
      else splitlines_from (line @ [c]) cs)"

definition read_from_gcs :: "string \<Rightarrow> string list" where
  "read_from_gcs content = splitlines_from [] content"

text \<open>\<^verbatim>\<open>str.strip()\<close>: the characters below 256 for which \<^verbatim>\<open>isspace()\<close> holds.\<close>

definition py_isspace :: "char \<Rightarrow> bool" where
  "py_isspace c = (c \<in> set [CHR 0x09, CHR 0x0A, CHR 0x0B, CHR 0x0C, CHR 0x0D, CHR 0x1C,
     CHR 0x1D, CHR 0x1E, CHR 0x1F, CHR 0x20, CHR 0x85, CHR 0xA0])"

definition py_strip :: "string \<Rightarrow> string" where
  "py_strip s = rev (dropWhile py_isspace (rev (dropWhile py_isspace s)))"

fun is_dict :: "json \<Rightarrow> bool" where
  "is_dict (JObj _) = True"
| "is_dict _ = False"

text \<open>
  The loop that merges the envelope's \<^verbatim>\<open>metadata\<close> into every entry. The metadata is
  looked up inside the loop over the entries, so nothing is read, and nothing can fail,
  when there is no entry.
\<close>

fun add_metadata :: "row \<Rightarrow> row list \<Rightarrow> error + row list" where
  "add_metadata json_data [] = Inr []"
| "add_metadata json_data (entry # entries) =
     (case py_items (dict_get_default json_data ''metadata'' (JObj [])) of
        Inl e \<Rightarrow> Inl e
      | Inr metadata \<Rightarrow>
          (case add_metadata json_data entries of
             Inl e \<Rightarrow> Inl e
           | Inr entries' \<Rightarrow>
               Inr (fold (\<lambda>m. AList.update (''metadata_'' @ fst m) (snd m)) metadata entry
                    # entries')))"

text \<open>
  One round of the loop over the lines. \<open>json_loads\<close> stands for \<^verbatim>\<open>json.loads\<close>, with
  \<open>None\<close> for \<^verbatim>\<open>JSONDecodeError\<close>, the one exception the loop catches.
  \<^verbatim>\<open>json_data.get\<close> raises \<^verbatim>\<open>AttributeError\<close> when the line is not a JSON object.
\<close>

definition process_line ::
  "(string \<Rightarrow> json option) \<Rightarrow> string \<Rightarrow> string \<Rightarrow> row list \<Rightarrow> error + row list" where
  "process_line json_loads data_type line flattened_data =
     (case json_loads (py_strip line) of
        None \<Rightarrow> Inr flattened_data
      | Some (JObj json_data) \<Rightarrow>
          (if \<not> is_dict (dict_get json_data ''data'') then Inr flattened_data
           else
             (case flatten_json json_data data_type ''_'' of
                Inl e \<Rightarrow> Inl e
              | Inr flattened_entries \<Rightarrow>
                  (case add_metadata json_data flattened_entries of
                     Inl e \<Rightarrow> Inl e
                   | Inr entries \<Rightarrow> Inr (flattened_data @ entries))))
      | Some _ \<Rightarrow> Inl AttributeError)"

fun process_lines ::
  "(string \<Rightarrow> json option) \<Rightarrow> string \<Rightarrow> string list \<Rightarrow> row list \<Rightarrow> error + row list" where
  "process_lines json_loads data_type [] flattened_data = Inr flattened_data"
| "process_lines json_loads data_type (line # lines) flattened_data =
     (case process_line json_loads data_type line flattened_data of
        Inl e \<Rightarrow> Inl e
      | Inr flattened_data' \<Rightarrow> process_lines json_loads data_type lines flattened_data')"

text \<open>
  \<open>lines\<close> is what \<^verbatim>\<open>read_from_gcs\<close> returns; the result is the table handed to
  \<^verbatim>\<open>write_to_gcs\<close>, or the exception that ends the run before anything is written.
\<close>

definition convert_json_to_csv ::
  "(string \<Rightarrow> json option) \<Rightarrow> (string \<Rightarrow> string) \<Rightarrow> (json \<Rightarrow> string) \<Rightarrow> string
     \<Rightarrow> string list \<Rightarrow> string \<Rightarrow> error + dataframe" where
  "convert_json_to_csv json_loads md5_hexdigest repr current_time lines data_type =
     (case process_lines json_loads data_type lines [] of
        Inl e \<Rightarrow> Inl e
      | Inr flattened_data \<Rightarrow>
          add_audit_columns md5_hexdigest repr current_time (DataFrame flattened_data) data_type)"

section \<open>Extract\<close>

subsection \<open>\<^verbatim>\<open>fetch_paginated_data\<close>\<close>

text \<open>
  One request: \<^verbatim>\<open>requests.get\<close>, \<^verbatim>\<open>raise_for_status\<close> and \<^verbatim>\<open>response.json()\<close>
  either raise a \<^verbatim>\<open>RequestException\<close> or give the decoded body.
\<close>

datatype response = RequestException | Body json

text \<open>Python's truth value, and \<^verbatim>\<open>a or b\<close>.\<close>

fun truthy :: "json \<Rightarrow> bool" where
  "truthy JNull = False"
| "truthy (JBool b) = b"
| "truthy (JInt n) = (n \<noteq> 0)"
| "truthy (JFloat x) = (x \<noteq> Finite 0)"
| "truthy (JStr s) = (s \<noteq> [])"
| "truthy (JArr xs) = (xs \<noteq> [])"
| "truthy (JObj d) = (d \<noteq> [])"

definition py_or :: "json \<Rightarrow> json \<Rightarrow> json" where
  "py_or a b = (if truthy a then a else b)"

definition page_items :: "row \<Rightarrow> json" where
  "page_items data =
     py_or (py_or (py_or (dict_get data ''products'') (dict_get data ''users''))
                  (dict_get data ''carts''))
           (JArr [])"

text \<open>\<^verbatim>\<open>n >= t\<close> for an int \<open>n\<close>: defined against a number, a \<^verbatim>\<open>TypeError\<close> otherwise.\<close>

fun int_ge :: "int \<Rightarrow> json \<Rightarrow> error + bool" where
  "int_ge n (JInt t) = Inr (t \<le> n)"
| "int_ge n (JBool b) = Inr ((if b then 1 else 0) \<le> n)"
| "int_ge n (JFloat (Finite q)) = Inr (q \<le> of_int n)"
| "int_ge n (JFloat NegInf) = Inr True"
| "int_ge n (JFloat _) = Inr False"
| "int_ge n _ = Inl TypeError"

text \<open>
  One round of the \<^verbatim>\<open>while True\<close> loop. \<open>http_get n limit skip\<close> is the outcome of
  the request number \<open>n\<close> (counted from 0) for the URL
  \<^verbatim>\<open>{base_url}?limit={limit}&skip={skip}\<close>. A round either leaves the loop, by
  \<^verbatim>\<open>break\<close> with the items to return or by an exception that is not caught, or goes
  on with the new \<open>total_fetched\<close> and \<open>all_items\<close>. \<^verbatim>\<open>all_items.extend(items)\<close>
  iterates \<open>items\<close>; \<^verbatim>\<open>time.sleep\<close> raises on a negative delay.
\<close>

datatype round = Leave "error + json list" | Continue int "json list"

definition fetch_round ::
  "(nat \<Rightarrow> int \<Rightarrow> int \<Rightarrow> response) \<Rightarrow> int \<Rightarrow> rat \<Rightarrow> nat \<Rightarrow> int \<Rightarrow> int \<Rightarrow> json list \<Rightarrow> round" where
  "fetch_round http_get limit delay n skip total_fetched all_items =
     (case http_get n limit skip of
        RequestException \<Rightarrow> Leave (Inr all_items)
      | Body (JObj data) \<Rightarrow>
          (if \<not> truthy (page_items data) then Leave (Inr all_items)
           else
             (case py_iter (page_items data) of
                Inl e \<Rightarrow> Leave (Inl e)
              | Inr items \<Rightarrow>
                  (case int_ge (total_fetched + int (length items))
                          (dict_get_default data ''total'' (JInt 0)) of
                     Inl e \<Rightarrow> Leave (Inl e)
                   | Inr True \<Rightarrow> Leave (Inr (all_items @ items))
                   | Inr False \<Rightarrow>
                       (if delay < 0 then Leave (Inl ValueError)
                        else Continue (total_fetched + int (length items)) (all_items @ items)))))
      | Body _ \<Rightarrow> Leave (Inl AttributeError))"

text \<open>The loop need not end, so its result is an option: \<open>None\<close> when it runs forever.\<close>

partial_function (option) fetch_loop ::
  "(nat \<Rightarrow> int \<Rightarrow> int \<Rightarrow> response) \<Rightarrow> int \<Rightarrow> rat \<Rightarrow> nat \<Rightarrow> int \<Rightarrow> int \<Rightarrow> json list
     \<Rightarrow> (error + json list) option" where
  "fetch_loop http_get limit delay n skip total_fetched all_items =
     (case fetch_round http_get limit delay n skip total_fetched all_items of
        Leave result \<Rightarrow> Some result
      | Continue total_fetched' all_items' \<Rightarrow>
          fetch_loop http_get limit delay (Suc n) (skip + limit) total_fetched' all_items')"

definition fetch_paginated_data ::
  "(nat \<Rightarrow> int \<Rightarrow> int \<Rightarrow> response) \<Rightarrow> int \<Rightarrow> rat \<Rightarrow> (error + json list) option" where
  "fetch_paginated_data http_get limit delay = fetch_loop http_get limit delay 0 0 0 []"

subsection \<open>\<^verbatim>\<open>save_to_gcs\<close>\<close>

text \<open>
  The bucket maps blob names to contents. \<open>clock k\<close> is the \<open>k\<close>-th reading of
  \<^verbatim>\<open>datetime.now().isoformat()\<close> and the state counts the readings made so far.
\<close>

record storage =
  blobs :: "string \<rightharpoonup> string"
  clock_reads :: nat

fun join :: "string \<Rightarrow> string list \<Rightarrow> string" where
  "join sep [] = []"
| "join sep [x] = x"
| "join sep (x # y # ys) = x @ sep @ join sep (y # ys)"

text \<open>
  \<open>json_dumps\<close> stands for \<^verbatim>\<open>json.dumps\<close>; \<open>upload_fails\<close> tells whether
  \<^verbatim>\<open>blob.upload_from_string\<close> raises. The result is the returned flag and the new state.
\<close>

definition save_to_gcs ::
  "(json \<Rightarrow> string) \<Rightarrow> (nat \<Rightarrow> string) \<Rightarrow> bool \<Rightarrow> storage \<Rightarrow> json list \<Rightarrow> string
     \<Rightarrow> bool \<times> storage" where
  "save_to_gcs json_dumps clock upload_fails st data filename =
     (let extraction_timestamp = clock (clock_reads st);
          st = st\<lparr>clock_reads := Suc (clock_reads st)\<rparr>;
          ndjson_content =
            map (\<lambda>item. json_dumps (JObj
                   [(''metadata'', JObj [(''extraction_timestamp'', JStr extraction_timestamp)]),
                    (''data'', item)]))
                data;
          ndjson_string = join [CHR 0x0A] ndjson_content
      in if upload_fails then (False, st)
         else (True, st\<lparr>blobs := (blobs st)(filename \<mapsto> ndjson_string)\<rparr>))"

section \<open>Load\<close>

text \<open>Raising is the left summand; \<open>bind\<close> runs the next step on a result.\<close>

definition bind :: "error + 'a \<Rightarrow> ('a \<Rightarrow> error + 'b) \<Rightarrow> error + 'b" where
  "bind m f = (case m of Inl e \<Rightarrow> Inl e | Inr x \<Rightarrow> f x)"

text \<open>The path check and \<^verbatim>\<open>bucket_name, blob_name = gcs_path.split('/', 1)\<close>.\<close>

definition startswith :: "string \<Rightarrow> string \<Rightarrow> bool" where
  "startswith s p = (take (length p) s = p)"

definition split_once :: "char \<Rightarrow> string \<Rightarrow> string list" where
  "split_once c s =
     (case dropWhile (\<lambda>x. x \<noteq> c) s of
        [] \<Rightarrow> [s]
      | _ # rest \<Rightarrow> [takeWhile (\<lambda>x. x \<noteq> c) s, rest])"

definition parse_gcs_path :: "string \<Rightarrow> error + string \<times> string" where
  "parse_gcs_path input_file =
     (if \<not> startswith input_file ''gs://'' then Inl ValueError
      else
        (case split_once CHR ''/'' (drop 5 input_file) of
           [bucket_name, blob_name] \<Rightarrow> Inr (bucket_name, blob_name)
         | _ \<Rightarrow> Inl ValueError))"

text \<open>
  \<^verbatim>\<open>df[labels]\<close> raises \<^verbatim>\<open>KeyError\<close> when a label is not a column (the first such label
  is kept here); assigning \<^verbatim>\<open>.columns\<close> renames by position and needs as many names
  as there are columns.
\<close>

definition select_columns :: "string list \<Rightarrow> dataframe \<Rightarrow> error + dataframe" where
  "select_columns labels df =
     (case filter (\<lambda>c. c \<notin> set (columns df)) labels of
        [] \<Rightarrow> Inr \<lparr>columns = labels, rows = map (\<lambda>r. map (\<lambda>c. (c, cell r c)) labels) (rows df)\<rparr>
      | c # _ \<Rightarrow> Inl (KeyError c))"

definition rename_columns :: "string list \<Rightarrow> dataframe \<Rightarrow> error + dataframe" where
  "rename_columns names df =
     (if length names \<noteq> length (columns df) then Inl ValueError
      else Inr \<lparr>columns = names, rows = map (\<lambda>r. zip names (map snd r)) (rows df)\<rparr>)"

text \<open>
  \<^verbatim>\<open>pd.to_numeric(column, errors='coerce')\<close> on one cell: a number stays, a string is
  parsed by pandas (\<open>parse_number\<close>, giving the number's value), and whatever is not a
  number becomes NaN.
\<close>

fun to_numeric :: "(string \<Rightarrow> pyfloat option) \<Rightarrow> json \<Rightarrow> json" where
  "to_numeric parse_number (JInt n) = JInt n"
| "to_numeric parse_number (JFloat x) = JFloat x"
| "to_numeric parse_number (JBool b) = JBool b"
| "to_numeric parse_number (JStr s) =
     (case parse_number s of Some x \<Rightarrow> JFloat x | None \<Rightarrow> JFloat NaN)"
| "to_numeric parse_number _ = JFloat NaN"

definition map_column :: "string \<Rightarrow> (json \<Rightarrow> json) \<Rightarrow> dataframe \<Rightarrow> dataframe" where
  "map_column c f df = df\<lparr>rows := map (\<lambda>r. AList.update c (f (cell r c)) r) (rows df)\<rparr>"

text \<open>\<^verbatim>\<open>column > k\<close> on one cell of a column: a \<^verbatim>\<open>TypeError\<close> when it is not a number.\<close>

fun num_gt :: "json \<Rightarrow> int \<Rightarrow> error + bool" where
  "num_gt (JInt n) k = Inr (k < n)"
| "num_gt (JBool b) k = Inr (k < (if b then 1 else 0))"
| "num_gt (JFloat (Finite q)) k = Inr (of_int k < q)"
| "num_gt (JFloat PosInf) k = Inr True"
| "num_gt (JFloat _) k = Inr False"
| "num_gt _ k = Inl TypeError"

text \<open>\<^verbatim>\<open>table[mask]\<close>, the mask computed cell by cell.\<close>

fun filter_rows :: "(row \<Rightarrow> error + bool) \<Rightarrow> row list \<Rightarrow> error + row list" where
  "filter_rows p [] = Inr []"
| "filter_rows p (r # rs) =
     bind (p r) (\<lambda>keep. bind (filter_rows p rs) (\<lambda>rs'. Inr (if keep then r # rs' else rs')))"

definition where_rows :: "(row \<Rightarrow> error + bool) \<Rightarrow> dataframe \<Rightarrow> error + dataframe" where
  "where_rows p df = bind (filter_rows p (rows df)) (\<lambda>rs. Inr (df\<lparr>rows := rs\<rparr>))"

text \<open>\<^verbatim>\<open>pd.isna\<close> and \<^verbatim>\<open>dropna(subset=...)\<close>.\<close>

fun isna :: "json \<Rightarrow> bool" where
  "isna JNull = True"
| "isna (JFloat NaN) = True"
| "isna _ = False"

definition dropna :: "string list \<Rightarrow> dataframe \<Rightarrow> error + dataframe" where
  "dropna labels df =
     (case filter (\<lambda>c. c \<notin> set (columns df)) labels of
        [] \<Rightarrow> Inr (df\<lparr>rows := filter (\<lambda>r. list_all (\<lambda>c. \<not> isna (cell r c)) labels) (rows df)\<rparr>)
      | c # _ \<Rightarrow> Inl (KeyError c))"

text \<open>
  The three loaders. \<open>read_gcs_csv bucket_name blob_name\<close> is the download and
  \<^verbatim>\<open>pd.read_csv\<close>; every exception is logged and raised again.
\<close>

definition clean_products_table ::
  "(string \<Rightarrow> string \<Rightarrow> error + dataframe) \<Rightarrow> (string \<Rightarrow> pyfloat option) \<Rightarrow> string
     \<Rightarrow> error + dataframe" where
  "clean_products_table read_gcs_csv parse_number input_file =
     bind (parse_gcs_path input_file) (\<lambda>(bucket_name, blob_name).
     bind (read_gcs_csv bucket_name blob_name) (\<lambda>df.
     bind (select_columns
            ([''sgk_product_id'']
             @ [''product_id'', ''product_title'', ''product_category'', ''product_brand'',
                ''product_price'']
             @ [''record_create_name'', ''record_create_datetime'', ''record_update_name'',
                ''record_update_datetime'', ''source_system_code'']) df) (\<lambda>products_table.
     bind (rename_columns
            [''sgk_product_id'', ''product_id'', ''name'', ''category'', ''brand'', ''price'',
             ''record_create_name'', ''record_create_datetime'', ''record_update_name'',
             ''record_update_datetime'', ''source_system_code''] products_table) (\<lambda>products_table.
     where_rows (\<lambda>r. num_gt (cell r ''price'') 50)
       (map_column ''price'' (to_numeric parse_number) products_table)))))"

definition clean_users_table ::
  "(string \<Rightarrow> string \<Rightarrow> error + dataframe) \<Rightarrow> (string \<Rightarrow> pyfloat option) \<Rightarrow> string
     \<Rightarrow> error + dataframe" where
  "clean_users_table read_gcs_csv parse_number input_file =
     bind (parse_gcs_path input_file) (\<lambda>(bucket_name, blob_name).
     bind (read_gcs_csv bucket_name blob_name) (\<lambda>df.
     bind (select_columns
            ([''sgk_user_id'']
             @ [''user_id'', ''user_firstName'', ''user_lastName'', ''user_gender'', ''user_age'',
                ''user_address_address'', ''user_address_city'', ''user_address_postalCode'']
             @ [''record_create_name'', ''record_create_datetime'', ''record_update_name'',
                ''record_update_datetime'', ''source_system_code'']) df) (\<lambda>users_table.
     bind (rename_columns
            [''sgk_user_id'', ''user_id'', ''first_name'', ''last_name'', ''gender'', ''age'',
             ''street'', ''city'', ''postal_code'',
             ''record_create_name'', ''record_create_datetime'', ''record_update_name'',
             ''record_update_datetime'', ''source_system_code''] users_table) (\<lambda>users_table.
     dropna [''user_id'', ''first_name'', ''last_name'']
       (map_column ''age'' (to_numeric parse_number) users_table)))))"

definition clean_carts_table ::
  "(string \<Rightarrow> string \<Rightarrow> error + dataframe) \<Rightarrow> (string \<Rightarrow> pyfloat option) \<Rightarrow> string
     \<Rightarrow> error + dataframe" where
  "clean_carts_table read_gcs_csv parse_number input_file =
     bind (parse_gcs_path input_file) (\<lambda>(bucket_name, blob_name).
     bind (read_gcs_csv bucket_name blob_name) (\<lambda>df.
     bind (select_columns
            ([''sgk_cart_id'']
             @ [''cart_id'', ''user_id'', ''product_id'', ''product_quantity'', ''product_price'',
                ''total_cart_value'']
             @ [''record_create_name'', ''record_create_datetime'', ''record_update_name'',
                ''record_update_datetime'', ''source_system_code'']) df) (\<lambda>carts_table.
     bind (rename_columns
            [''sgk_cart_id'', ''cart_id'', ''user_id'', ''product_id'', ''quantity'', ''price'',
             ''total_cart_value'',
             ''record_create_name'', ''record_create_datetime'', ''record_update_name'',
             ''record_update_datetime'', ''source_system_code''] carts_table) (\<lambda>carts_table.
     dropna [''cart_id'', ''user_id'', ''product_id'']
       (map_column ''price'' (to_numeric parse_number)
         (map_column ''quantity'' (to_numeric parse_number) carts_table))))))"

section \<open>Notions of the specification\<close>

subsection \<open>Flattened rows\<close>

text \<open>The cart-level and the per-item columns of a cart row, and the per-item part.\<close>

definition cart_fields :: "string list" where
  "cart_fields = [''cart_id'', ''user_id'', ''total_cart_value'',
     ''discounted_total_cart_value'', ''total_products'', ''total_quantity'']"

definition item_fields :: "string list" where
  "item_fields = [''product_id'', ''product_title'', ''product_price'', ''product_quantity'',
     ''product_total'', ''product_discount_percentage'', ''product_discounted_total'',
     ''product_thumbnail'']"

definition item_info :: "row \<Rightarrow> row" where
  "item_info product =
     [(''product_id'', dict_get product ''id''),
      (''product_title'', dict_get product ''title''),
      (''product_price'', dict_get product ''price''),
      (''product_quantity'', dict_get product ''quantity''),
      (''product_total'', dict_get product ''total''),
      (''product_discount_percentage'', dict_get product ''discountPercentage''),
      (''product_discounted_total'', dict_get product ''discountedTotal''),
      (''product_thumbnail'', dict_get product ''thumbnail'')]"

text \<open>
  The columns the specification gives a user or product record: a scalar field \<open>f\<close>
  becomes \<open>prefix f\<close>, a subfield \<open>s\<close> of an object field becomes \<open>prefix f_s\<close>, a list
  field becomes \<open>prefix f_count\<close> with its length.
\<close>

definition scalar_columns :: "string \<Rightarrow> row \<Rightarrow> row" where
  "scalar_columns prefix data =
     map (\<lambda>kv. (prefix @ fst kv, snd kv)) (filter (\<lambda>kv. is_scalar (snd kv)) data)"

fun nested_columns :: "string \<Rightarrow> string \<times> json \<Rightarrow> row" where
  "nested_columns prefix (k, JObj v) = map (\<lambda>sub. (prefix @ k @ ''_'' @ fst sub, snd sub)) v"
| "nested_columns prefix (k, JArr v) = [(prefix @ k @ ''_count'', JInt (int (length v)))]"
| "nested_columns prefix (k, _) = []"

definition entity_columns :: "string \<Rightarrow> row \<Rightarrow> row" where
  "entity_columns prefix data =
     scalar_columns prefix data @ concat (map (nested_columns prefix) data)"

subsection \<open>Surrogate keys\<close>

text \<open>The natural-key columns and the surrogate-key column of each entity.\<close>

definition natural_key :: "string \<Rightarrow> string list" where
  "natural_key data_type =
     (if data_type = ''products'' then [''product_id'']
      else if data_type = ''users'' then [''user_id'']
      else [''user_id'', ''product_id'', ''cart_id''])"

definition sgk_column :: "string \<Rightarrow> string" where
  "sgk_column data_type =
     (if data_type = ''products'' then ''sgk_product_id''
      else if data_type = ''users'' then ''sgk_user_id''
      else ''sgk_cart_id'')"

definition audit_names :: "string list" where
  "audit_names = [''record_create_name'', ''record_create_datetime'', ''record_update_name'',
     ''record_update_datetime'', ''source_system_code'']"

subsection \<open>Lines\<close>

text \<open>
  The lines the conversion is specified to skip: a line that is not JSON, and a JSON
  object whose \<^verbatim>\<open>data\<close> is not an object.
\<close>

definition bad_line :: "(string \<Rightarrow> json option) \<Rightarrow> string \<Rightarrow> bool" where
  "bad_line json_loads line =
     (case json_loads (py_strip line) of
        None \<Rightarrow> True
      | Some (JObj json_data) \<Rightarrow> \<not> is_dict (dict_get json_data ''data'')
      | Some _ \<Rightarrow> False)"

subsection \<open>Pages\<close>

text \<open>
  Request \<open>n\<close> is answered with the \<open>n\<close>-th page of a collection: the body exposes the
  items from \<open>n * limit\<close> on, at most \<open>limit\<close> of them, and the size of the collection
  as its total. A server paginates a collection when it answers so the first request and
  every request for a page that begins inside the collection.
\<close>

definition serves :: "(nat \<Rightarrow> int \<Rightarrow> int \<Rightarrow> response) \<Rightarrow> int \<Rightarrow> json list \<Rightarrow> nat \<Rightarrow> bool" where
  "serves http_get limit collection n =
     (\<exists>data. http_get n limit (int n * limit) = Body (JObj data)
        \<and> page_items data = JArr (take (nat limit) (drop (n * nat limit) collection))
        \<and> dict_get_default data ''total'' (JInt 0) = JInt (int (length collection)))"

definition paginates :: "(nat \<Rightarrow> int \<Rightarrow> int \<Rightarrow> response) \<Rightarrow> int \<Rightarrow> json list \<Rightarrow> bool" where
  "paginates http_get limit collection =
     (\<forall>n. n = 0 \<or> n * nat limit < length collection \<longrightarrow> serves http_get limit collection n)"

text \<open>
  The fetch is cut short at request \<open>k\<close>: the requests before it are answered with their
  pages, none of them the last one, and request \<open>k\<close> fails or yields no items.
\<close>

definition stops_at :: "(nat \<Rightarrow> int \<Rightarrow> int \<Rightarrow> response) \<Rightarrow> int \<Rightarrow> json list \<Rightarrow> nat \<Rightarrow> bool" where
  "stops_at http_get limit collection k =
     ((\<forall>m<k. serves http_get limit collection m)
      \<and> (k = 0 \<or> k * nat limit < length collection)
      \<and> (http_get k limit (int k * limit) = RequestException
         \<or> (\<exists>data. http_get k limit (int k * limit) = Body (JObj data)
               \<and> \<not> truthy (page_items data))))"

subsection \<open>The raw file\<close>

text \<open>The line written for one item, before serialisation, and a text that is one line.\<close>

definition envelope :: "string \<Rightarrow> json \<Rightarrow> json" where
  "envelope extraction_timestamp item =
     JObj [(''metadata'', JObj [(''extraction_timestamp'', JStr extraction_timestamp)]),
           (''data'', item)]"

definition one_line :: "string \<Rightarrow> bool" where
  "one_line s = (s \<noteq> [] \<and> list_all (\<lambda>c. \<not> is_linebreak c) s)"

subsection \<open>Warehouse rows\<close>

text \<open>The columns each loader requires of the cleansed table.\<close>

definition products_required :: "string list" where
  "products_required =
     [''sgk_product_id'', ''product_id'', ''product_title'', ''product_category'',
      ''product_brand'', ''product_price'', ''record_create_name'', ''record_create_datetime'',
      ''record_update_name'', ''record_update_datetime'', ''source_system_code'']"

definition users_required :: "string list" where
  "users_required =
     [''sgk_user_id'', ''user_id'', ''user_firstName'', ''user_lastName'', ''user_gender'',
      ''user_age'', ''user_address_address'', ''user_address_city'',
      ''user_address_postalCode'', ''record_create_name'', ''record_create_datetime'',
      ''record_update_name'', ''record_update_datetime'', ''source_system_code'']"

definition carts_required :: "string list" where
  "carts_required =
     [''sgk_cart_id'', ''cart_id'', ''user_id'', ''product_id'', ''product_quantity'',
      ''product_price'', ''total_cart_value'', ''record_create_name'',
      ''record_create_datetime'', ''record_update_name'', ''record_update_datetime'',
      ''source_system_code'']"

text \<open>
  The price of a row as a number, null (NaN) when it is not one, and the comparison of
  such a number with a floor.
\<close>

definition numeric_value :: "(string \<Rightarrow> pyfloat option) \<Rightarrow> json \<Rightarrow> pyfloat" where
  "numeric_value parse_number v =
     (case v of
        JInt n \<Rightarrow> Finite (of_int n)
      | JFloat x \<Rightarrow> x
      | JBool b \<Rightarrow> Finite (if b then 1 else 0)
      | JStr s \<Rightarrow> (case parse_number s of Some x \<Rightarrow> x | None \<Rightarrow> NaN)
      | _ \<Rightarrow> NaN)"

fun exceeds :: "pyfloat \<Rightarrow> rat \<Rightarrow> bool" where
  "exceeds (Finite q) k = (k < q)"
| "exceeds PosInf k = True"
| "exceeds NegInf k = False"
| "exceeds NaN k = False"

definition price_kept :: "(string \<Rightarrow> pyfloat option) \<Rightarrow> row \<Rightarrow> bool" where
  "price_kept parse_number r =
     exceeds (numeric_value parse_number (cell r ''product_price'')) 50"

definition users_kept :: "row \<Rightarrow> bool" where
  "users_kept r =
     (\<not> isna (cell r ''user_id'') \<and> \<not> isna (cell r ''user_firstName'')
      \<and> \<not> isna (cell r ''user_lastName''))"

definition carts_kept :: "row \<Rightarrow> bool" where
  "carts_kept r =
     (\<not> isna (cell r ''cart_id'') \<and> \<not> isna (cell r ''user_id'')
      \<and> \<not> isna (cell r ''product_id''))"

text \<open>The warehouse row made from a row of the cleansed table.\<close>

definition products_row :: "(string \<Rightarrow> pyfloat option) \<Rightarrow> row \<Rightarrow> row" where
  "products_row parse_number r =
     [(''sgk_product_id'', cell r ''sgk_product_id''),
      (''product_id'', cell r ''product_id''),
      (''name'', cell r ''product_title''),
      (''category'', cell r ''product_category''),
      (''brand'', cell r ''product_brand''),
      (''price'', to_numeric parse_number (cell r ''product_price'')),
      (''record_create_name'', cell r ''record_create_name''),
      (''record_create_datetime'', cell r ''record_create_datetime''),
      (''record_update_name'', cell r ''record_update_name''),
      (''record_update_datetime'', cell r ''record_update_datetime''),
      (''source_system_code'', cell r ''source_system_code'')]"

definition users_row :: "(string \<Rightarrow> pyfloat option) \<Rightarrow> row \<Rightarrow> row" where
  "users_row parse_number r =
     [(''sgk_user_id'', cell r ''sgk_user_id''),
      (''user_id'', cell r ''user_id''),
      (''first_name'', cell r ''user_firstName''),
      (''last_name'', cell r ''user_lastName''),
      (''gender'', cell r ''user_gender''),
      (''age'', to_numeric parse_number (cell r ''user_age'')),
      (''street'', cell r ''user_address_address''),
      (''city'', cell r ''user_address_city''),
      (''postal_code'', cell r ''user_address_postalCode''),
      (''record_create_name'', cell r ''record_create_name''),
      (''record_create_datetime'', cell r ''record_create_datetime''),
      (''record_update_name'', cell r ''record_update_name''),
      (''record_update_datetime'', cell r ''record_update_datetime''),
      (''source_system_code'', cell r ''source_system_code'')]"

definition carts_row :: "(string \<Rightarrow> pyfloat option) \<Rightarrow> row \<Rightarrow> row" where
  "carts_row parse_number r =
     [(''sgk_cart_id'', cell r ''sgk_cart_id''),
      (''cart_id'', cell r ''cart_id''),
      (''user_id'', cell r ''user_id''),
      (''product_id'', cell r ''product_id''),
      (''quantity'', to_numeric parse_number (cell r ''product_quantity'')),
      (''price'', to_numeric parse_number (cell r ''product_price'')),
      (''total_cart_value'', cell r ''total_cart_value''),
      (''record_create_name'', cell r ''record_create_name''),
      (''record_create_datetime'', cell r ''record_create_datetime''),
      (''record_update_name'', cell r ''record_update_name''),
      (''record_update_datetime'', cell r ''record_update_datetime''),
      (''source_system_code'', cell r ''source_system_code'')]"

section \<open>Example inputs\<close>

text \<open>A cart with two line items and a user record.\<close>

definition cart_example_products :: "json list" where
  "cart_example_products =
     [JObj [(''id'', JInt 168), (''title'', JStr ''Charger''), (''price'', JInt 33)],
      JObj [(''id'', JInt 78), (''title'', JStr ''MacBook''), (''quantity'', JInt 4)]]"

definition cart_example_data :: row where
  "cart_example_data =
     [(''id'', JInt 1), (''products'', JArr cart_example_products),
      (''total'', JInt 103774), (''userId'', JInt 33), (''totalProducts'', JInt 2),
      (''totalQuantity'', JInt 5)]"

definition cart_example :: row where
  "cart_example = [(''data'', JObj cart_example_data)]"

definition user_example_data :: row where
  "user_example_data =
     [(''id'', JInt 1), (''firstName'', JStr ''Emily''),
      (''address'', JObj [(''city'', JStr ''Phoenix'')]),
      (''tags'', JArr [JStr ''a'', JStr ''b''])]"

definition user_example :: row where
  "user_example = [(''data'', JObj user_example_data)]"

text \<open>
  The line of the end-to-end example, the value \<^verbatim>\<open>json.loads\<close> gives for it, and a
  parser that knows the lines used below: one that is a JSON number, and one whose
  metadata is a number.
\<close>

definition product_line :: string where
  "product_line = ''{\"metadata\":{\"extraction_timestamp\":\"2024-01-01T00:00:00\"},\"data\":{\"id\":7,\"title\":\"Widget\",\"price\":60}}''"

definition product_record :: json where
  "product_record = JObj
     [(''metadata'', JObj [(''extraction_timestamp'', JStr ''2024-01-01T00:00:00'')]),
      (''data'', JObj [(''id'', JInt 7), (''title'', JStr ''Widget''), (''price'', JInt 60)])]"

definition metadata_line :: string where
  "metadata_line = ''{\"metadata\":5,\"data\":{\"id\":1}}''"

definition loads_example :: "string \<Rightarrow> json option" where
  "loads_example s =
     (if s = product_line then Some product_record
      else if s = ''7'' then Some (JInt 7)
      else if s = metadata_line
        then Some (JObj [(''metadata'', JInt 5), (''data'', JObj [(''id'', JInt 1)])])
      else None)"

text \<open>
  A product line without an id, and a parser that knows it and the example line: two
  runs that both hold the product with id 7, one of them next to the product without id.
\<close>

definition no_id_line :: string where
  "no_id_line = ''{\"metadata\":{\"extraction_timestamp\":\"2024-01-01T00:00:00\"},\"data\":{\"title\":\"Gadget\",\"price\":5}}''"

definition no_id_record :: json where
  "no_id_record = JObj
     [(''metadata'', JObj [(''extraction_timestamp'', JStr ''2024-01-01T00:00:00'')]),
      (''data'', JObj [(''title'', JStr ''Gadget''), (''price'', JInt 5)])]"

definition loads_missing_id :: "string \<Rightarrow> json option" where
  "loads_missing_id s =
     (if s = product_line then Some product_record
      else if s = no_id_line then Some no_id_record
      else None)"

text \<open>Two tables with the same product id in rows that differ elsewhere.\<close>

definition frame_example_a :: dataframe where
  "frame_example_a =
     \<lparr>columns = [''product_id'', ''product_title''],
      rows = [[(''product_id'', JInt 7), (''product_title'', JStr ''Widget'')],
              [(''product_id'', JInt 8), (''product_title'', JStr ''Gadget'')]]\<rparr>"

definition frame_example_b :: dataframe where
  "frame_example_b =
     \<lparr>columns = [''product_id'', ''product_price''],
      rows = [[(''product_id'', JInt 9), (''product_price'', JInt 10)],
              [(''product_id'', JInt 7), (''product_price'', JInt 60)]]\<rparr>"

text \<open>
  A server that pages through five items, one whose second request fails, and one
  whose third request yields no items.
\<close>

definition example_items :: "json list" where
  "example_items = [JInt 1, JInt 2, JInt 3, JInt 4, JInt 5]"

definition example_server :: "nat \<Rightarrow> int \<Rightarrow> int \<Rightarrow> response" where
  "example_server n limit skip =
     Body (JObj [(''products'', JArr (take (nat limit) (drop (nat skip) example_items))),
                 (''total'', JInt 5), (''skip'', JInt skip), (''limit'', JInt limit)])"

definition failing_server :: "nat \<Rightarrow> int \<Rightarrow> int \<Rightarrow> response" where
  "failing_server n limit skip =
     (if n = 1 then RequestException else example_server n limit skip)"

definition short_server :: "nat \<Rightarrow> int \<Rightarrow> int \<Rightarrow> response" where
  "short_server n limit skip =
     (if n = 2 then Body (JObj [(''products'', JArr []), (''total'', JInt 5)])
      else example_server n limit skip)"

text \<open>A serialiser that knows two envelopes, a clock and an empty bucket.\<close>

definition dumps_example :: "json \<Rightarrow> string" where
  "dumps_example v =
     (if v = envelope ''2024-01-01T00:00:00'' (JInt 1) then ''{\"n\": 1}''
      else if v = envelope ''2024-01-01T00:00:00'' (JInt 2) then ''{\"n\": 2}''
      else ''null'')"

definition clock_example :: "nat \<Rightarrow> string" where
  "clock_example k = (if k = 0 then ''2024-01-01T00:00:00'' else ''2024-01-02T00:00:00'')"

definition storage_example :: storage where
  "storage_example = \<lparr>blobs = Map.empty, clock_reads = 0\<rparr>"

text \<open>
  Cleansed tables: products priced 49.99, 50.01 and with a price that is no number;
  a user without a first name; a cart line without a product id next to a complete one.
\<close>

definition products_frame_example :: dataframe where
  "products_frame_example =
     \<lparr>columns = products_required @ [''metadata_extraction_timestamp''],
      rows = map (\<lambda>p. [(''sgk_product_id'', JStr ''k''), (''product_id'', JInt 1),
                        (''product_title'', JStr ''t''), (''product_category'', JStr ''c''),
                        (''product_brand'', JStr ''b''), (''product_price'', p),
                        (''record_create_name'', JStr ''Daniel Oselu''),
                        (''record_create_datetime'', JStr ''2024-01-02''),
                        (''record_update_name'', JStr ''Daniel Oselu''),
                        (''record_update_datetime'', JStr ''2024-01-02''),
                        (''source_system_code'', JStr ''PUBLIC_DUMMYJSON_API''),
                        (''metadata_extraction_timestamp'', JStr ''2024-01-01'')])
               [JFloat (Finite (4999 / 100)), JFloat (Finite (5001 / 100)), JStr ''n/a'']\<rparr>"

definition users_frame_example :: dataframe where
  "users_frame_example =
     \<lparr>columns = users_required,
      rows = [map (\<lambda>c. (c, if c = ''user_id'' then JInt 1
                            else if c = ''user_firstName'' then JFloat NaN
                            else JStr ''x'')) users_required]\<rparr>"

definition carts_frame_example :: dataframe where
  "carts_frame_example =
     \<lparr>columns = carts_required,
      rows = map (\<lambda>p. map (\<lambda>c. (c, if c = ''product_id'' then p else JInt 3)) carts_required)
               [JFloat NaN, JInt 168]\<rparr>"

definition read_example :: "dataframe \<Rightarrow> string \<Rightarrow> string \<Rightarrow> error + dataframe" where
  "read_example df bucket_name blob_name =
     (if bucket_name = ''bucket'' \<and> blob_name = ''cleanse/table.csv'' then Inr df
      else Inl ValueError)"

section \<open>Dicts\<close>

lemma update_fresh: "k \<notin> fst ` set al \<Longrightarrow> AList.update k v al = al @ [(k, v)]"
  by (induction al) auto

lemma fold_update_fresh:
  "distinct (map fst (d @ map f e)) \<Longrightarrow>
   fold (\<lambda>x. AList.update (fst (f x)) (snd (f x))) e d = d @ map f e"
proof (induction e arbitrary: d)
  case Nil
  then show ?case by simp
next
  case (Cons x e)
  have "fst (f x) \<notin> fst ` set d" using Cons.prems by auto
  then have "AList.update (fst (f x)) (snd (f x)) d = d @ [f x]" by (simp add: update_fresh)
  moreover have "distinct (map fst ((d @ [f x]) @ map f e))" using Cons.prems by simp
  ultimately show ?case using Cons.IH[of "d @ [f x]"] by simp
qed

lemma dict_update_fresh:
  "distinct (map fst (d @ e)) \<Longrightarrow> dict_update e d = d @ e"
  using fold_update_fresh[of d "\<lambda>x. x" e] by (simp add: dict_update_def)

section \<open>Cart fan-out\<close>

lemma cart_row_append:
  "cart_row (cart_info cd) (JObj p) = Inr (cart_info cd @ item_info p)"
  by (simp add: cart_info_def item_info_def dict_update_def)

lemma cart_row_keys: "map fst (cart_info cd @ item_info p) = cart_fields @ item_fields"
  by (simp add: cart_info_def item_info_def cart_fields_def item_fields_def)

lemma cart_row_shared:
  assumes "c \<notin> set item_fields"
  shows "map_of (cart_info cd @ item_info p) c = map_of (cart_info cd) c"
proof -
  have "c \<notin> fst ` set (item_info p)"
    using assms by (simp add: item_info_def item_fields_def)
  then have "map_of (item_info p) c = None"
    by (simp add: map_of_eq_None_iff)
  then show ?thesis by (simp add: map_add_def split: option.splits)
qed

lemma cart_fields_not_item: "c \<in> set cart_fields \<Longrightarrow> c \<notin> set item_fields"
  by (auto simp: cart_fields_def item_fields_def)

lemma expand_rows_objects:
  "\<forall>p\<in>set products. is_dict p \<Longrightarrow>
     \<exists>rs. expand_rows (cart_info cd) products acc = Inr (acc @ rs)
        \<and> length rs = length products
        \<and> (\<forall>r\<in>set rs. \<exists>p. r = cart_info cd @ item_info p)"
proof (induction products arbitrary: acc)
  case Nil
  then show ?case by simp
next
  case (Cons p products)
  from Cons.prems obtain d where p: "p = JObj d" by (cases p) auto
  from Cons.prems have "\<forall>p\<in>set products. is_dict p" by simp
  from Cons.IH[OF this, of "acc @ [cart_info cd @ item_info d]"]
  obtain rs where rs:
    "expand_rows (cart_info cd) products (acc @ [cart_info cd @ item_info d])
        = Inr ((acc @ [cart_info cd @ item_info d]) @ rs)"
    "length rs = length products" "\<forall>r\<in>set rs. \<exists>p. r = cart_info cd @ item_info p"
    by blast
  have "expand_rows (cart_info cd) (p # products) acc
      = Inr (acc @ (cart_info cd @ item_info d) # rs)"
    using rs(1) p by (simp add: cart_row_append del: cart_row.simps)
  moreover have "length ((cart_info cd @ item_info d) # rs) = length (p # products)"
    using rs(2) by simp
  moreover have "\<forall>r\<in>set ((cart_info cd @ item_info d) # rs). \<exists>p. r = cart_info cd @ item_info p"
    using rs(3) by auto
  ultimately show ?case by blast
qed

text \<open>
  C2. A cart record whose product list holds \<open>N\<close> line items (objects) flattens to
  exactly \<open>N\<close> rows, so a cart without line items gives no row. Every row has the six
  cart-level columns followed by the eight per-item columns, carries the cart's values in
  the cart-level columns, and any two rows agree on every column that is not a per-item
  column.
\<close>

theorem flatten_cart_json_fan_out:
  assumes "dict_get_default nested_json ''data'' (JObj []) = JObj cart_data"
    and "dict_get_default cart_data ''products'' (JArr []) = JArr products"
    and "\<forall>p\<in>set products. is_dict p"
  shows "\<exists>rs. flatten_cart_json nested_json separator = Inr rs
     \<and> length rs = length products
     \<and> (\<forall>r\<in>set rs. map fst r = cart_fields @ item_fields)
     \<and> (\<forall>r\<in>set rs. \<forall>c\<in>set cart_fields. map_of r c = map_of (cart_info cart_data) c)
     \<and> (\<forall>r\<in>set rs. \<forall>r'\<in>set rs. \<forall>c. c \<notin> set item_fields \<longrightarrow> map_of r c = map_of r' c)"
proof -
  from expand_rows_objects[OF assms(3), of cart_data "[]"]
  obtain rs where rs: "expand_rows (cart_info cart_data) products [] = Inr rs"
     "length rs = length products" "\<forall>r\<in>set rs. \<exists>p. r = cart_info cart_data @ item_info p"
    by auto
  have res: "flatten_cart_json nested_json separator = Inr rs"
    using assms(1,2) rs(1) by (simp add: flatten_cart_json_def)
  have keys: "\<forall>r\<in>set rs. map fst r = cart_fields @ item_fields"
    using rs(3) cart_row_keys by metis
  have shared: "\<forall>r\<in>set rs. \<forall>c. c \<notin> set item_fields
      \<longrightarrow> map_of r c = map_of (cart_info cart_data) c"
    using rs(3) cart_row_shared by metis
  have cart: "\<forall>r\<in>set rs. \<forall>c\<in>set cart_fields. map_of r c = map_of (cart_info cart_data) c"
    using shared cart_fields_not_item by blast
  have differ: "\<forall>r\<in>set rs. \<forall>r'\<in>set rs. \<forall>c. c \<notin> set item_fields
      \<longrightarrow> map_of r c = map_of r' c"
    using shared by simp
  show ?thesis using res rs(2) keys cart differ by blast
qed

theorem flatten_cart_json_fan_out_witness:
  "dict_get_default cart_example ''data'' (JObj []) = JObj cart_example_data
   \<and> dict_get_default cart_example_data ''products'' (JArr []) = JArr cart_example_products
   \<and> list_all is_dict cart_example_products
   \<and> (\<exists>rs. flatten_cart_json cart_example ''_'' = Inr rs \<and> length rs = 2
         \<and> list_all (\<lambda>r. map_of r ''cart_id'' = Some (JInt 1)) rs)"
proof -
  have h1: "dict_get_default cart_example ''data'' (JObj []) = JObj cart_example_data"
    by (simp add: cart_example_def dict_get_default_def)
  have h2: "dict_get_default cart_example_data ''products'' (JArr []) = JArr cart_example_products"
    by (simp add: cart_example_data_def dict_get_default_def)
  have h3: "\<forall>p\<in>set cart_example_products. is_dict p"
    by (simp add: cart_example_products_def)
  have c: "''cart_id'' \<in> set cart_fields" by (simp add: cart_fields_def)
  have v: "map_of (cart_info cart_example_data) ''cart_id'' = Some (JInt 1)"
    by (simp add: cart_info_def cart_example_data_def dict_get_def dict_get_default_def)
  from flatten_cart_json_fan_out[OF h1 h2 h3, of "''_''"]
  obtain rs where rs: "flatten_cart_json cart_example ''_'' = Inr rs"
    "length rs = length cart_example_products"
    "\<forall>r\<in>set rs. \<forall>c\<in>set cart_fields. map_of r c = map_of (cart_info cart_example_data) c"
    by blast
  have "length rs = 2" using rs(2) by (simp add: cart_example_products_def)
  moreover have "list_all (\<lambda>r. map_of r ''cart_id'' = Some (JInt 1)) rs"
    using rs(3) c v by (simp add: list_all_iff)
  ultimately show ?thesis using h1 h2 h3 rs(1) by (simp add: list_all_iff)
qed

section \<open>User flattening\<close>

lemma scalar_fields_fresh:
  "distinct (map fst (scalar_columns prefix data)) \<Longrightarrow>
     scalar_fields prefix data = scalar_columns prefix data"
  by (simp add: scalar_fields_def scalar_columns_def dict_update_fresh)

lemma nested_field_fresh:
  "distinct (map fst (acc @ nested_columns prefix kv)) \<Longrightarrow>
     nested_field prefix kv acc = acc @ nested_columns prefix kv"
proof (cases kv)
  case (Pair k v)
  assume d: "distinct (map fst (acc @ nested_columns prefix kv))"
  show ?thesis
  proof (cases v)
    case (JObj d')
    with Pair d show ?thesis
      using fold_update_fresh[of acc "\<lambda>sub. (prefix @ k @ ''_'' @ fst sub, snd sub)" d']
      by simp
  next
    case (JArr xs)
    with Pair d show ?thesis by (simp add: update_fresh)
  qed (use Pair in simp_all)
qed

lemma fold_nested_field_fresh:
  "distinct (map fst (acc @ concat (map (nested_columns prefix) items))) \<Longrightarrow>
     fold (nested_field prefix) items acc = acc @ concat (map (nested_columns prefix) items)"
proof (induction items arbitrary: acc)
  case Nil
  then show ?case by simp
next
  case (Cons kv items)
  have "distinct (map fst (acc @ nested_columns prefix kv))" using Cons.prems by auto
  then have step: "nested_field prefix kv acc = acc @ nested_columns prefix kv"
    by (rule nested_field_fresh)
  have "distinct (map fst ((acc @ nested_columns prefix kv)
          @ concat (map (nested_columns prefix) items)))"
    using Cons.prems by simp
  from Cons.IH[OF this] step show ?case by simp
qed

lemma flattened_entity_fresh:
  assumes "distinct (map fst (entity_columns prefix data))"
  shows "fold (nested_field prefix) data (scalar_fields prefix data) = entity_columns prefix data"
proof -
  have "distinct (map fst (scalar_columns prefix data))"
    using assms by (simp add: entity_columns_def)
  then have "scalar_fields prefix data = scalar_columns prefix data"
    by (rule scalar_fields_fresh)
  then show ?thesis
    using fold_nested_field_fresh[of "scalar_columns prefix data" prefix data] assms
    by (simp add: entity_columns_def)
qed

lemma entity_columns_scalar:
  "(f, v) \<in> set data \<Longrightarrow> is_scalar v \<Longrightarrow> (prefix @ f, v) \<in> set (entity_columns prefix data)"
  by (force simp: entity_columns_def scalar_columns_def)

lemma entity_columns_sub:
  "(f, JObj d) \<in> set data \<Longrightarrow> (s, sv) \<in> set d \<Longrightarrow>
     (prefix @ f @ ''_'' @ s, sv) \<in> set (entity_columns prefix data)"
  by (force simp: entity_columns_def)

lemma entity_columns_count:
  "(f, JArr xs) \<in> set data \<Longrightarrow>
     (prefix @ f @ ''_count'', JInt (int (length xs))) \<in> set (entity_columns prefix data)"
  by (force simp: entity_columns_def)

text \<open>
  C7, as amended. A user record whose \<^verbatim>\<open>data\<close> is an object, and whose fields give
  pairwise different column names, flattens to exactly one row. In it every top-level
  field \<open>f\<close> holding a string, a number or a boolean \<open>v\<close> is the column \<open>user_f = v\<close>, every
  subfield \<open>s\<close> of an object field \<open>f\<close> is the column \<open>user_f_s\<close>, every list field \<open>f\<close> is
  the column \<open>user_f_count\<close> holding the length of the list, and the row has no other
  column: the elements of lists are dropped, and so are the fields that are null.
\<close>

theorem flatten_user_json_columns:
  assumes "dict_get_default nested_json ''data'' (JObj []) = JObj user_data"
    and "distinct (map fst (entity_columns ''user_'' user_data))"
  shows "\<exists>r. flatten_user_json nested_json separator = Inr [r]
     \<and> (\<forall>f v. (f, v) \<in> set user_data \<and> is_scalar v \<longrightarrow> map_of r (''user_'' @ f) = Some v)
     \<and> (\<forall>f d s sv. (f, JObj d) \<in> set user_data \<and> (s, sv) \<in> set d
           \<longrightarrow> map_of r (''user_'' @ f @ ''_'' @ s) = Some sv)
     \<and> (\<forall>f xs. (f, JArr xs) \<in> set user_data
           \<longrightarrow> map_of r (''user_'' @ f @ ''_count'') = Some (JInt (int (length xs))))
     \<and> set r = set (entity_columns ''user_'' user_data)"
proof -
  let ?r = "entity_columns ''user_'' user_data"
  have res: "flatten_user_json nested_json separator = Inr [?r]"
    using assms by (simp add: flatten_user_json_def flattened_entity_fresh)
  have look: "\<And>c v. (c, v) \<in> set ?r \<Longrightarrow> map_of ?r c = Some v"
    using assms(2) by simp
  have a: "\<forall>f v. (f, v) \<in> set user_data \<and> is_scalar v
      \<longrightarrow> map_of ?r (''user_'' @ f) = Some v"
    using look entity_columns_scalar by blast
  have b: "\<forall>f d s sv. (f, JObj d) \<in> set user_data \<and> (s, sv) \<in> set d
           \<longrightarrow> map_of ?r (''user_'' @ f @ ''_'' @ s) = Some sv"
    using look entity_columns_sub by blast
  have c: "\<forall>f xs. (f, JArr xs) \<in> set user_data
           \<longrightarrow> map_of ?r (''user_'' @ f @ ''_count'') = Some (JInt (int (length xs)))"
    using look entity_columns_count by blast
  show ?thesis using res a b c by blast
qed

theorem flatten_user_json_columns_witness:
  "dict_get_default user_example ''data'' (JObj []) = JObj user_example_data
   \<and> distinct (map fst (entity_columns ''user_'' user_example_data))
   \<and> (\<exists>r. flatten_user_json user_example ''_'' = Inr [r]
         \<and> map_of r ''user_firstName'' = Some (JStr ''Emily'')
         \<and> map_of r ''user_address_city'' = Some (JStr ''Phoenix'')
         \<and> map_of r ''user_tags_count'' = Some (JInt 2))"
proof -
  have h1: "dict_get_default user_example ''data'' (JObj []) = JObj user_example_data"
    by (simp add: user_example_def dict_get_default_def)
  have h2: "distinct (map fst (entity_columns ''user_'' user_example_data))"
    by (simp add: entity_columns_def scalar_columns_def user_example_data_def)
  from flatten_user_json_columns[OF h1 h2, of "''_''"]
  obtain r where r: "flatten_user_json user_example ''_'' = Inr [r]"
    "\<forall>f v. (f, v) \<in> set user_example_data \<and> is_scalar v
       \<longrightarrow> map_of r (''user_'' @ f) = Some v"
    "\<forall>f d s sv. (f, JObj d) \<in> set user_example_data \<and> (s, sv) \<in> set d
       \<longrightarrow> map_of r (''user_'' @ f @ ''_'' @ s) = Some sv"
    "\<forall>f xs. (f, JArr xs) \<in> set user_example_data
       \<longrightarrow> map_of r (''user_'' @ f @ ''_count'') = Some (JInt (int (length xs)))"
    by blast
  have "map_of r (''user_'' @ ''firstName'') = Some (JStr ''Emily'')"
    using r(2) by (simp add: user_example_data_def)
  moreover have "map_of r (''user_'' @ ''address'' @ ''_'' @ ''city'') = Some (JStr ''Phoenix'')"
    using r(3)[rule_format, of "''address''" "[(''city'', JStr ''Phoenix'')]" "''city''"
        "JStr ''Phoenix''"]
    by (simp add: user_example_data_def)
  moreover have "map_of r (''user_'' @ ''tags'' @ ''_count'')
      = Some (JInt (int (length [JStr ''a'', JStr ''b''])))"
    using r(4)[rule_format, of "''tags''" "[JStr ''a'', JStr ''b'']"]
    by (simp add: user_example_data_def)
  ultimately show ?thesis using h1 h2 r(1) by simp
qed

text \<open>
  C7 as stated fails on the record \<^verbatim>\<open>{"a": null, "b_count": 7, "b": []}\<close>: the null
  field \<open>a\<close> gives no column \<open>user_a\<close>, and the scalar field \<open>b_count = 7\<close> does not
  appear as \<open>user_b_count = 7\<close>, because the list field \<open>b\<close> stores its length 0 under
  the same name afterwards.
\<close>

theorem flatten_user_json_counterexample:
  "flatten_user_json
     [(''data'', JObj [(''a'', JNull), (''b_count'', JInt 7), (''b'', JArr [])])] ''_''
   = Inr [[(''user_b_count'', JInt 0)]]"
  by (simp add: flatten_user_json_def dict_get_default_def scalar_fields_def dict_update_def)

section \<open>The enrichment step\<close>

lemma audit_columns_rows:
  "rows (audit_columns current_time df) =
     map (\<lambda>r. AList.update ''source_system_code'' (JStr ''PUBLIC_DUMMYJSON_API'')
            (AList.update ''record_update_datetime'' (JStr current_time)
              (AList.update ''record_update_name'' (JStr ''Daniel Oselu'')
                (AList.update ''record_create_datetime'' (JStr current_time)
                  (AList.update ''record_create_name'' (JStr ''Daniel Oselu'') r)))))
         (rows df)"
  by (simp add: audit_columns_def set_column_def)

lemma audit_columns_length: "length (rows (audit_columns current_time df)) = length (rows df)"
  by (simp add: audit_columns_rows)

lemma audit_columns_keeps:
  assumes "i < length (rows df)" and "c \<notin> set audit_names"
  shows "map_of (rows (audit_columns current_time df) ! i) c = map_of (rows df ! i) c"
  using assms by (simp add: audit_columns_rows AList.update_conv' audit_names_def)

lemma set_column_values_row:
  assumes "length vs = length (rows df)" and "i < length (rows df)"
  shows "rows (set_column_values c vs df) ! i = AList.update c (vs ! i) (rows df ! i)"
  using assms by (simp add: set_column_values_def)

lemma set_column_values_length:
  "length vs = length (rows df) \<Longrightarrow>
     length (rows (set_column_values c vs df)) = length (rows df)"
  by (simp add: set_column_values_def)

lemma set_hash_column_row:
  assumes "set_hash_column md5_hexdigest repr sgk c df = Inr out" and "i < length (rows df)"
  shows "map_of (rows out ! i) sgk
           = Some (JStr (md5_hexdigest (py_str repr (cell (rows df ! i) c))))"
    and "length (rows out) = length (rows df)"
proof -
  let ?vs = "map (\<lambda>x. JStr (md5_hexdigest (py_str repr x))) (map (\<lambda>r. cell r c) (rows df))"
  have out: "out = set_column_values sgk ?vs df"
    using assms(1) by (auto simp: set_hash_column_def get_column_def split: if_splits)
  have len: "length ?vs = length (rows df)" by simp
  show "length (rows out) = length (rows df)"
    unfolding out using len by (rule set_column_values_length)
  have "rows out ! i = AList.update sgk (?vs ! i) (rows df ! i)"
    unfolding out using len assms(2) by (rule set_column_values_row)
  then show "map_of (rows out ! i) sgk
      = Some (JStr (md5_hexdigest (py_str repr (cell (rows df ! i) c))))"
    using assms(2) by (simp add: AList.update_conv')
qed

lemma apply_rows_nth:
  "apply_rows f rs = Inr vs \<Longrightarrow>
     length vs = length rs \<and> (\<forall>i<length rs. f (rs ! i) = Inr (vs ! i))"
proof (induction rs arbitrary: vs)
  case Nil
  then show ?case by simp
next
  case (Cons r rs)
  from Cons.prems obtain v vs' where v: "f r = Inr v" and vs': "apply_rows f rs = Inr vs'"
    and vs: "vs = v # vs'"
    by (auto split: sum.splits)
  from Cons.IH[OF vs'] have ih: "length vs' = length rs"
    "\<forall>i<length rs. f (rs ! i) = Inr (vs' ! i)"
    by simp_all
  show ?case
  proof (intro conjI allI impI)
    show "length vs = length (r # rs)" using ih(1) vs by simp
  next
    fix i assume "i < length (r # rs)"
    then show "f ((r # rs) ! i) = Inr (vs ! i)"
      using v ih(2) vs by (cases i) simp_all
  qed
qed

lemma set_cart_keys_row:
  assumes "set_cart_keys md5_hexdigest repr df = Inr out" and "i < length (rows df)"
  shows "\<exists>v. cart_key md5_hexdigest repr (rows df ! i) = Inr v
           \<and> map_of (rows out ! i) ''sgk_cart_id'' = Some v"
    and "length (rows out) = length (rows df)"
proof -
  from assms(2) have ne: "rows df \<noteq> []" by auto
  from assms(1) ne obtain keys
    where keys: "apply_rows (cart_key md5_hexdigest repr) (rows df) = Inr keys"
    and out: "out = set_column_values ''sgk_cart_id'' keys df"
    by (auto simp: set_cart_keys_def split: sum.splits)
  from apply_rows_nth[OF keys] have len: "length keys = length (rows df)"
    and nth: "cart_key md5_hexdigest repr (rows df ! i) = Inr (keys ! i)"
    using assms(2) by simp_all
  have row: "rows out ! i = AList.update ''sgk_cart_id'' (keys ! i) (rows df ! i)"
    unfolding out using len assms(2) by (rule set_column_values_row)
  show "length (rows out) = length (rows df)"
    unfolding out using len by (rule set_column_values_length)
  show "\<exists>v. cart_key md5_hexdigest repr (rows df ! i) = Inr v
           \<and> map_of (rows out ! i) ''sgk_cart_id'' = Some v"
    using row nth by (simp add: AList.update_conv')
qed

lemma cart_key_cong:
  assumes "\<forall>c\<in>set [''user_id'', ''product_id'', ''cart_id'']. map_of r c = map_of r' c"
  shows "cart_key md5_hexdigest repr r = cart_key md5_hexdigest repr r'"
proof -
  have "map_of r ''user_id'' = map_of r' ''user_id''"
    and "map_of r ''product_id'' = map_of r' ''product_id''"
    and "map_of r ''cart_id'' = map_of r' ''cart_id''"
    using assms by simp_all
  then show ?thesis
    unfolding cart_key_def dict_get_default_def by (simp only:)
qed

lemma cell_cong: "map_of r c = map_of r' c \<Longrightarrow> cell r c = cell r' c"
  by (simp add: cell_def dict_get_default_def)

text \<open>
  What holds of \<^verbatim>\<open>add_audit_columns\<close> on the tables it is given: take two calls for the
  same entity, on any two tables and at any two times, and a row of each table. If the
  two rows hold the same cells in the natural-key columns of the entity, the same value
  stored in the same way, both rows get a surrogate key and the two keys are equal.
\<close>

lemma surrogate_key_deterministic:
  assumes dt: "data_type = ''products'' \<or> data_type = ''users'' \<or> data_type = ''carts''"
    and out: "add_audit_columns md5_hexdigest repr current_time df data_type = Inr out"
    and out': "add_audit_columns md5_hexdigest repr current_time' df' data_type = Inr out'"
    and i: "i < length (rows df)" and j: "j < length (rows df')"
    and same: "\<forall>c\<in>set (natural_key data_type). map_of (rows df ! i) c = map_of (rows df' ! j) c"
  shows "length (rows out) = length (rows df) \<and> length (rows out') = length (rows df')
     \<and> map_of (rows out ! i) (sgk_column data_type) \<noteq> None
     \<and> map_of (rows out ! i) (sgk_column data_type)
         = map_of (rows out' ! j) (sgk_column data_type)"
proof -
  let ?a = "audit_columns current_time df" and ?a' = "audit_columns current_time' df'"
  have ia: "i < length (rows ?a)" and ja: "j < length (rows ?a')"
    using i j by (simp_all add: audit_columns_length)
  have keep: "\<forall>c\<in>set (natural_key data_type). map_of (rows ?a ! i) c = map_of (rows ?a' ! j) c"
    using same i j
    by (simp add: natural_key_def audit_columns_keeps audit_names_def)
  consider (products) "data_type = ''products''" | (users) "data_type = ''users''"
    | (carts) "data_type = ''carts''"
    using dt by blast
  then show ?thesis
  proof cases
    case products
    have o: "set_hash_column md5_hexdigest repr ''sgk_product_id'' ''product_id'' ?a = Inr out"
      and o': "set_hash_column md5_hexdigest repr ''sgk_product_id'' ''product_id'' ?a' = Inr out'"
      using out out' products by (simp_all add: add_audit_columns_def)
    have "cell (rows ?a ! i) ''product_id'' = cell (rows ?a' ! j) ''product_id''"
      using keep products by (intro cell_cong) (simp add: natural_key_def)
    then show ?thesis
      using set_hash_column_row[OF o ia] set_hash_column_row[OF o' ja] products
      by (simp add: sgk_column_def audit_columns_length)
  next
    case users
    have o: "set_hash_column md5_hexdigest repr ''sgk_user_id'' ''user_id'' ?a = Inr out"
      and o': "set_hash_column md5_hexdigest repr ''sgk_user_id'' ''user_id'' ?a' = Inr out'"
      using out out' users by (simp_all add: add_audit_columns_def)
    have "cell (rows ?a ! i) ''user_id'' = cell (rows ?a' ! j) ''user_id''"
      using keep users by (intro cell_cong) (simp add: natural_key_def)
    then show ?thesis
      using set_hash_column_row[OF o ia] set_hash_column_row[OF o' ja] users
      by (simp add: sgk_column_def audit_columns_length)
  next
    case carts
    have o: "set_cart_keys md5_hexdigest repr ?a = Inr out"
      and o': "set_cart_keys md5_hexdigest repr ?a' = Inr out'"
      using out out' carts by (simp_all add: add_audit_columns_def)
    have "cart_key md5_hexdigest repr (rows ?a ! i) = cart_key md5_hexdigest repr (rows ?a' ! j)"
      using keep carts by (intro cart_key_cong) (simp add: natural_key_def)
    moreover obtain v where "cart_key md5_hexdigest repr (rows ?a ! i) = Inr v"
      and "map_of (rows out ! i) ''sgk_cart_id'' = Some v"
      using set_cart_keys_row(1)[OF o ia] by blast
    moreover obtain v' where "cart_key md5_hexdigest repr (rows ?a' ! j) = Inr v'"
      and "map_of (rows out' ! j) ''sgk_cart_id'' = Some v'"
      using set_cart_keys_row(1)[OF o' ja] by blast
    ultimately have "map_of (rows out ! i) ''sgk_cart_id'' = map_of (rows out' ! j) ''sgk_cart_id''"
      and "map_of (rows out ! i) ''sgk_cart_id'' \<noteq> None"
      by simp_all
    then show ?thesis
      using set_cart_keys_row(2)[OF o ia] set_cart_keys_row(2)[OF o' ja] carts
      by (simp add: sgk_column_def audit_columns_length)
  qed
qed

lemma add_column_keeps: "c \<in> set cs \<Longrightarrow> c \<in> set (add_column c' cs)"
  by (simp add: add_column_def)

lemma audit_columns_has:
  "c \<in> set (columns df) \<Longrightarrow> c \<in> set (columns (audit_columns current_time df))"
  by (simp add: audit_columns_def set_column_def add_column_keeps)

lemma add_audit_columns_products_ok:
  "''product_id'' \<in> set (columns df) \<Longrightarrow>
     \<exists>out. add_audit_columns md5_hexdigest repr current_time df ''products'' = Inr out"
  by (simp add: add_audit_columns_def set_hash_column_def get_column_def audit_columns_has)

lemma surrogate_key_deterministic_example:
  "(0::nat) < length (rows frame_example_a) \<and> (1::nat) < length (rows frame_example_b)
   \<and> map_of (rows frame_example_a ! 0) ''product_id''
       = map_of (rows frame_example_b ! 1) ''product_id''
   \<and> (\<exists>out out'.
         add_audit_columns (\<lambda>s. s) (\<lambda>x. []) ''2024-01-02T02:00:00'' frame_example_a ''products''
           = Inr out
       \<and> add_audit_columns (\<lambda>s. s) (\<lambda>x. []) ''2024-01-03T02:00:00'' frame_example_b ''products''
           = Inr out'
       \<and> map_of (rows out ! 0) ''sgk_product_id'' \<noteq> None
       \<and> map_of (rows out ! 0) ''sgk_product_id'' = map_of (rows out' ! 1) ''sgk_product_id'')"
proof -
  have i: "(0::nat) < length (rows frame_example_a)"
    and j: "(1::nat) < length (rows frame_example_b)"
    by (simp_all add: frame_example_a_def frame_example_b_def)
  have same: "\<forall>c\<in>set (natural_key ''products'').
      map_of (rows frame_example_a ! 0) c = map_of (rows frame_example_b ! 1) c"
    by (simp add: natural_key_def frame_example_a_def frame_example_b_def)
  have "''product_id'' \<in> set (columns frame_example_a)"
    and "''product_id'' \<in> set (columns frame_example_b)"
    by (simp_all add: frame_example_a_def frame_example_b_def)
  then obtain out out' where
    out: "add_audit_columns (\<lambda>s. s) (\<lambda>x. []) ''2024-01-02T02:00:00'' frame_example_a ''products''
           = Inr out"
    and out': "add_audit_columns (\<lambda>s. s) (\<lambda>x. []) ''2024-01-03T02:00:00'' frame_example_b
           ''products'' = Inr out'"
    using add_audit_columns_products_ok by blast
  have k: "sgk_column ''products'' = ''sgk_product_id''"
    by (simp add: sgk_column_def)
  have "map_of (rows out ! 0) ''sgk_product_id'' \<noteq> None
     \<and> map_of (rows out ! 0) ''sgk_product_id'' = map_of (rows out' ! 1) ''sgk_product_id''"
    using surrogate_key_deterministic[OF _ out out' i j same] unfolding k by blast
  moreover have "map_of (rows frame_example_a ! 0) ''product_id''
       = map_of (rows frame_example_b ! 1) ''product_id''"
    using same by (simp add: natural_key_def)
  ultimately show ?thesis
    using i j out out' by blast
qed

section \<open>The conversion run\<close>

lemma str_int_7: "str_int 7 = ''7''"
  by (simp add: str_int_def str_nat.simps digit_char_def)

lemma py_strip_product_line: "py_strip product_line = product_line"
  by (simp add: py_strip_def product_line_def py_isspace_def)

lemma DataFrame_empty: "DataFrame [] = \<lparr>columns = [], rows = []\<rparr>"
  by (simp add: DataFrame_def record_keys_def)

text \<open>A line that does not parse, or whose \<^verbatim>\<open>data\<close> is no object, is skipped.\<close>

lemma process_line_skips:
  assumes "json_loads (py_strip line) = None
     \<or> (\<exists>json_data. json_loads (py_strip line) = Some (JObj json_data)
           \<and> \<not> is_dict (dict_get json_data ''data''))"
  shows "process_line json_loads data_type line flattened_data = Inr flattened_data"
  using assms by (auto simp: process_line_def)

lemma process_lines_malformed:
  "\<forall>l\<in>set lines. json_loads (py_strip l) = None \<Longrightarrow>
     process_lines json_loads data_type lines flattened_data = Inr flattened_data"
  by (induction lines arbitrary: flattened_data) (simp_all add: process_line_def)

lemma bad_line_skipped:
  "bad_line json_loads line \<Longrightarrow>
     process_line json_loads data_type line flattened_data = Inr flattened_data"
  by (auto simp: bad_line_def process_line_def split: option.splits json.splits)

text \<open>
  The part of C4 that holds: the lines that do not parse and the objects without an
  object as \<^verbatim>\<open>data\<close> leave no trace, the run is the run on the other lines.
\<close>

lemma process_lines_drops_bad_lines:
  "process_lines json_loads data_type lines flattened_data
     = process_lines json_loads data_type (filter (\<lambda>l. \<not> bad_line json_loads l) lines)
         flattened_data"
  by (induction lines arbitrary: flattened_data)
     (simp_all add: bad_line_skipped split: sum.splits)

lemma product_line_flattened:
  assumes "json_loads product_line = Some product_record"
  shows "process_line json_loads ''products'' product_line []
      = Inr [[(''product_id'', JInt 7), (''product_title'', JStr ''Widget''),
              (''product_price'', JInt 60),
              (''metadata_extraction_timestamp'', JStr ''2024-01-01T00:00:00'')]]"
  using assms
  by (simp add: process_line_def py_strip_product_line product_record_def dict_get_def
      dict_get_default_def flatten_json_def flatten_product_json_def scalar_fields_def
      dict_update_def)

text \<open>The table of the one product: every column keeps the values of the record.\<close>

lemma product_frame:
  "DataFrame [[(''product_id'', JInt 7), (''product_title'', JStr ''Widget''),
               (''product_price'', JInt 60),
               (''metadata_extraction_timestamp'', JStr ''2024-01-01T00:00:00'')]]
   = \<lparr>columns = [''product_id'', ''product_title'', ''product_price'',
                  ''metadata_extraction_timestamp''],
        rows = [[(''product_id'', JInt 7), (''product_title'', JStr ''Widget''),
                 (''product_price'', JInt 60),
                 (''metadata_extraction_timestamp'', JStr ''2024-01-01T00:00:00'')]]\<rparr>"
  by (simp add: DataFrame_def record_keys_def cell_def dict_get_default_def stored_def
      float_column_def)

text \<open>
  C5. When \<^verbatim>\<open>json.loads\<close> reads the example line as the example record, converting
  the one-line input with data type \<^verbatim>\<open>products\<close> yields a table of exactly one row:
  \<open>product_id = 7\<close>, \<open>product_title = Widget\<close>, \<open>product_price = 60\<close>,
  \<open>metadata_extraction_timestamp = 2024-01-01T00:00:00\<close>, the five audit columns, and
  \<open>sgk_product_id\<close> equal to the MD5 hex digest of the string \<open>7\<close>.
\<close>

theorem convert_product_example:
  assumes "json_loads product_line = Some product_record"
  shows "convert_json_to_csv json_loads md5_hexdigest repr current_time [product_line] ''products''
    = Inr \<lparr>columns =
         [''product_id'', ''product_title'', ''product_price'', ''metadata_extraction_timestamp'',
          ''record_create_name'', ''record_create_datetime'', ''record_update_name'',
          ''record_update_datetime'', ''source_system_code'', ''sgk_product_id''],
       rows =
         [[(''product_id'', JInt 7), (''product_title'', JStr ''Widget''),
           (''product_price'', JInt 60),
           (''metadata_extraction_timestamp'', JStr ''2024-01-01T00:00:00''),
           (''record_create_name'', JStr ''Daniel Oselu''),
           (''record_create_datetime'', JStr current_time),
           (''record_update_name'', JStr ''Daniel Oselu''),
           (''record_update_datetime'', JStr current_time),
           (''source_system_code'', JStr ''PUBLIC_DUMMYJSON_API''),
           (''sgk_product_id'', JStr (md5_hexdigest ''7''))]]\<rparr>"
proof -
  have line: "process_line json_loads ''products'' product_line []
      = Inr [[(''product_id'', JInt 7), (''product_title'', JStr ''Widget''),
              (''product_price'', JInt 60),
              (''metadata_extraction_timestamp'', JStr ''2024-01-01T00:00:00'')]]"
    using assms by (rule product_line_flattened)
  show ?thesis
    by (simp add: convert_json_to_csv_def line product_frame
        add_audit_columns_def audit_columns_def set_column_def
        add_column_def set_hash_column_def get_column_def set_column_values_def
        cell_def dict_get_default_def str_int_7)
qed

theorem convert_product_example_witness:
  "loads_example product_line = Some product_record
   \<and> (\<exists>df. convert_json_to_csv loads_example (\<lambda>s. s) (\<lambda>x. []) ''2024-01-02T02:00:00''
           [product_line] ''products'' = Inr df
         \<and> length (rows df) = 1
         \<and> map (\<lambda>r. map_of r ''sgk_product_id'') (rows df) = [Some (JStr ''7'')])"
proof -
  have h: "loads_example product_line = Some product_record"
    by (simp add: loads_example_def)
  show ?thesis
    using h convert_product_example[of loads_example "\<lambda>s. s" "\<lambda>x. []" "''2024-01-02T02:00:00''"]
    by simp
qed

lemma integral_float_7: "integral_float 7"
  by (simp add: integral_float_def)

lemma py_strip_no_id_line: "py_strip no_id_line = no_id_line"
  by (simp add: py_strip_def no_id_line_def py_isspace_def)

lemma loads_missing_id_lines:
  "loads_missing_id product_line = Some product_record"
  "loads_missing_id no_id_line = Some no_id_record"
  by (simp_all add: loads_missing_id_def product_line_def no_id_line_def)

lemma no_id_line_flattened:
  "process_line loads_missing_id ''products'' no_id_line acc
      = Inr (acc @ [[(''product_title'', JStr ''Gadget''), (''product_price'', JInt 5),
              (''metadata_extraction_timestamp'', JStr ''2024-01-01T00:00:00'')]])"
  by (simp add: process_line_def py_strip_no_id_line loads_missing_id_lines no_id_record_def
      dict_get_def dict_get_default_def flatten_json_def flatten_product_json_def
      scalar_fields_def dict_update_def)

lemma two_products_frame:
  "DataFrame [[(''product_id'', JInt 7), (''product_title'', JStr ''Widget''),
               (''product_price'', JInt 60),
               (''metadata_extraction_timestamp'', JStr ''2024-01-01T00:00:00'')],
              [(''product_title'', JStr ''Gadget''), (''product_price'', JInt 5),
               (''metadata_extraction_timestamp'', JStr ''2024-01-01T00:00:00'')]]
   = \<lparr>columns = [''product_id'', ''product_title'', ''product_price'',
                  ''metadata_extraction_timestamp''],
        rows = [[(''product_id'', JFloat (Finite 7)), (''product_title'', JStr ''Widget''),
                 (''product_price'', JInt 60),
                 (''metadata_extraction_timestamp'', JStr ''2024-01-01T00:00:00'')],
                [(''product_id'', JFloat NaN), (''product_title'', JStr ''Gadget''),
                 (''product_price'', JInt 5),
                 (''metadata_extraction_timestamp'', JStr ''2024-01-01T00:00:00'')]]\<rparr>"
  by (simp add: DataFrame_def record_keys_def cell_def dict_get_default_def stored_def
      float_column_def)

text \<open>
  C1 fails on the code. The key is the digest of the text of the id cell, and the text
  depends on how pandas stores the id column. The product with id 7 gets the digest of
  \<^verbatim>\<open>7\<close> in a run where it is the only record, and the digest of \<^verbatim>\<open>7.0\<close> in a run
  that also holds a product without id: the id column then has a missing entry and is
  stored as floats. The same natural key, two surrogate keys.
\<close>

theorem surrogate_key_changes_with_other_rows:
  "(\<exists>df. convert_json_to_csv loads_missing_id md5_hexdigest repr current_time
            [product_line] ''products'' = Inr df
        \<and> map (\<lambda>r. (cell r ''product_id'', cell r ''sgk_product_id'')) (rows df)
            = [(JInt 7, JStr (md5_hexdigest ''7''))])
   \<and> (\<exists>df. convert_json_to_csv loads_missing_id md5_hexdigest repr current_time
            [product_line, no_id_line] ''products'' = Inr df
        \<and> map (\<lambda>r. (cell r ''product_id'', cell r ''sgk_product_id'')) (rows df)
            = [(JFloat (Finite 7), JStr (md5_hexdigest ''7.0'')),
               (JFloat NaN, JStr (md5_hexdigest ''nan''))])"
proof -
  have line: "process_line loads_missing_id ''products'' product_line []
      = Inr [[(''product_id'', JInt 7), (''product_title'', JStr ''Widget''),
              (''product_price'', JInt 60),
              (''metadata_extraction_timestamp'', JStr ''2024-01-01T00:00:00'')]]"
    using loads_missing_id_lines(1) by (rule product_line_flattened)
  have one: "\<exists>df. convert_json_to_csv loads_missing_id md5_hexdigest repr current_time
            [product_line] ''products'' = Inr df
        \<and> map (\<lambda>r. (cell r ''product_id'', cell r ''sgk_product_id'')) (rows df)
            = [(JInt 7, JStr (md5_hexdigest ''7''))]"
    by (simp add: convert_json_to_csv_def line product_frame
        add_audit_columns_def audit_columns_def set_column_def
        add_column_def set_hash_column_def get_column_def set_column_values_def
        cell_def dict_get_default_def str_int_7)
  have two: "\<exists>df. convert_json_to_csv loads_missing_id md5_hexdigest repr current_time
            [product_line, no_id_line] ''products'' = Inr df
        \<and> map (\<lambda>r. (cell r ''product_id'', cell r ''sgk_product_id'')) (rows df)
            = [(JFloat (Finite 7), JStr (md5_hexdigest ''7.0'')),
               (JFloat NaN, JStr (md5_hexdigest ''nan''))]"
    by (simp add: convert_json_to_csv_def line no_id_line_flattened two_products_frame
        add_audit_columns_def audit_columns_def set_column_def
        add_column_def set_hash_column_def get_column_def set_column_values_def
        cell_def dict_get_default_def integral_float_7 str_int_7)
  from one two show ?thesis by (rule conjI)
qed

text \<open>
  C10. When the lines of the input give no flattened row at all (the file is empty, or
  every line is skipped), converting with data type \<^verbatim>\<open>products\<close> or \<^verbatim>\<open>users\<close> ends
  with a \<^verbatim>\<open>KeyError\<close> for the natural-key column in \<^verbatim>\<open>add_audit_columns\<close>: no table
  reaches \<^verbatim>\<open>write_to_gcs\<close>.
\<close>

theorem convert_empty_raises:
  assumes "data_type = ''products'' \<or> data_type = ''users''"
    and "process_lines json_loads data_type lines [] = Inr []"
  shows "convert_json_to_csv json_loads md5_hexdigest repr current_time lines data_type
    = Inl (KeyError (if data_type = ''products'' then ''product_id'' else ''user_id''))"
  using assms
  by (auto simp: convert_json_to_csv_def DataFrame_empty add_audit_columns_def
      set_hash_column_def get_column_def audit_columns_def set_column_def add_column_def)

theorem convert_empty_raises_witness:
  "process_lines loads_example ''products'' [''not json'', []] [] = Inr []
   \<and> convert_json_to_csv loads_example (\<lambda>s. s) (\<lambda>x. []) ''2024-01-02T02:00:00''
        [''not json'', []] ''products'' = Inl (KeyError ''product_id'')
   \<and> convert_json_to_csv loads_example (\<lambda>s. s) (\<lambda>x. []) ''2024-01-02T02:00:00''
        [] ''users'' = Inl (KeyError ''user_id'')"
proof -
  have h: "process_lines loads_example ''products'' [''not json'', []] [] = Inr []"
    by (simp add: process_line_def loads_example_def py_strip_def py_isspace_def
        product_line_def metadata_line_def)
  have h': "process_lines loads_example ''users'' [] [] = Inr []"
    by simp
  show ?thesis
    using h
      convert_empty_raises[of "''products''" loads_example "[''not json'', []]" "\<lambda>s. s" "\<lambda>x. []"
        "''2024-01-02T02:00:00''"]
      convert_empty_raises[of "''users''" loads_example "[]" "\<lambda>s. s" "\<lambda>x. []"
        "''2024-01-02T02:00:00''", OF _ h']
    by simp
qed

text \<open>
  C4 fails on the code. The line \<^verbatim>\<open>7\<close> is valid JSON but no object: \<^verbatim>\<open>json_data.get\<close>
  raises \<^verbatim>\<open>AttributeError\<close>, which the loop does not catch, and the run ends without a
  table although the line before it is a good product line. The same happens on a line
  whose \<^verbatim>\<open>data\<close> is an object and whose \<^verbatim>\<open>metadata\<close> is a number.
\<close>

theorem convert_aborts_on_parsed_line:
  "convert_json_to_csv loads_example md5_hexdigest repr current_time
      [product_line, ''7''] ''products'' = Inl AttributeError
   \<and> convert_json_to_csv loads_example md5_hexdigest repr current_time
      [product_line, metadata_line] ''products'' = Inl AttributeError"
proof -
  have good: "process_line loads_example ''products'' product_line []
      = Inr [[(''product_id'', JInt 7), (''product_title'', JStr ''Widget''),
              (''product_price'', JInt 60),
              (''metadata_extraction_timestamp'', JStr ''2024-01-01T00:00:00'')]]"
    by (simp add: process_line_def py_strip_product_line loads_example_def product_record_def
        dict_get_def dict_get_default_def flatten_json_def flatten_product_json_def
        scalar_fields_def dict_update_def)
  have seven: "process_line loads_example ''products'' ''7'' acc = Inl AttributeError" for acc
    by (simp add: process_line_def loads_example_def py_strip_def py_isspace_def
        product_line_def)
  have "py_strip metadata_line = metadata_line"
    by (simp add: py_strip_def metadata_line_def py_isspace_def)
  then have meta: "process_line loads_example ''products'' metadata_line acc = Inl AttributeError"
    for acc
    by (simp add: process_line_def loads_example_def product_line_def metadata_line_def
        dict_get_def dict_get_default_def flatten_json_def flatten_product_json_def
        scalar_fields_def dict_update_def)
  show ?thesis
    by (simp add: convert_json_to_csv_def good seven meta)
qed

section \<open>The paginated fetch\<close>

lemma fetch_round_page:
  assumes "http_get n limit skip = Body (JObj data)"
    and "page_items data = JArr items" and "items \<noteq> []"
    and "dict_get_default data ''total'' (JInt 0) = JInt t"
  shows "fetch_round http_get limit delay n skip total_fetched all_items =
     (if t \<le> total_fetched + int (length items) then Leave (Inr (all_items @ items))
      else if delay < 0 then Leave (Inl ValueError)
      else Continue (total_fetched + int (length items)) (all_items @ items))"
  by (simp add: fetch_round_def assms)

text \<open>A page that is not the last one: the loop goes on with one more page fetched.\<close>

lemma round_continue:
  assumes "0 < L" and "0 \<le> delay" and "serves http_get (int L) xs n"
    and "Suc n * L < length xs"
  shows "fetch_round http_get (int L) delay n (int (n * L)) (int (n * L)) (take (n * L) xs)
         = Continue (int (Suc n * L)) (take (Suc n * L) xs)"
proof -
  define page where "page = take L (drop (n * L) xs)"
  from assms(3) obtain data where get: "http_get n (int L) (int (n * L)) = Body (JObj data)"
    and items: "page_items data = JArr page"
    and total: "dict_get_default data ''total'' (JInt 0) = JInt (int (length xs))"
    unfolding serves_def page_def by auto
  have len: "length page = L" using assms(4) by (simp add: page_def)
  have ne: "page \<noteq> []" using len assms(1) by auto
  have app: "take (n * L) xs @ page = take (Suc n * L) xs"
    using take_add[of "n * L" L xs] by (simp add: add.commute page_def)
  have tot: "int (n * L) + int (length page) = int (Suc n * L)"
    unfolding len by simp
  have nge: "\<not> int (length xs) \<le> int (Suc n * L)"
    using assms(4) by linarith
  have nd: "\<not> delay < 0" using assms(2) by simp
  have "fetch_round http_get (int L) delay n (int (n * L)) (int (n * L)) (take (n * L) xs) =
     (if int (length xs) \<le> int (n * L) + int (length page)
      then Leave (Inr (take (n * L) xs @ page))
      else if delay < 0 then Leave (Inl ValueError)
      else Continue (int (n * L) + int (length page)) (take (n * L) xs @ page))"
    by (rule fetch_round_page) (fact get items ne total)+
  then show ?thesis
    unfolding tot app using nge nd by (simp only: if_False)
qed

text \<open>The last page: the total is reached and the whole collection is returned.\<close>

lemma round_last:
  assumes "0 < L" and "serves http_get (int L) xs n"
    and "n * L < length xs" and "length xs \<le> Suc n * L"
  shows "fetch_round http_get (int L) delay n (int (n * L)) (int (n * L)) (take (n * L) xs)
         = Leave (Inr xs)"
proof -
  define page where "page = take L (drop (n * L) xs)"
  from assms(2) obtain data where get: "http_get n (int L) (int (n * L)) = Body (JObj data)"
    and items: "page_items data = JArr page"
    and total: "dict_get_default data ''total'' (JInt 0) = JInt (int (length xs))"
    unfolding serves_def page_def by auto
  have page: "page = drop (n * L) xs" using assms(4) by (simp add: page_def)
  have ne: "page \<noteq> []" using assms(3) page by simp
  have "n * L + length page = length xs" using assms(3) page by simp
  then have tot: "int (n * L) + int (length page) = int (length xs)"
    by (simp only: of_nat_add[symmetric])
  have app: "take (n * L) xs @ page = xs"
    unfolding page by simp
  have "fetch_round http_get (int L) delay n (int (n * L)) (int (n * L)) (take (n * L) xs) =
     (if int (length xs) \<le> int (n * L) + int (length page)
      then Leave (Inr (take (n * L) xs @ page))
      else if delay < 0 then Leave (Inl ValueError)
      else Continue (int (n * L) + int (length page)) (take (n * L) xs @ page))"
    by (rule fetch_round_page) (fact get items ne total)+
  then show ?thesis
    unfolding tot app by (simp only: order_refl if_True)
qed

lemma round_empty_collection:
  assumes "serves http_get limit [] 0"
  shows "fetch_round http_get limit delay 0 0 0 [] = Leave (Inr [])"
proof -
  from assms obtain data where get: "http_get 0 limit 0 = Body (JObj data)"
    and items: "page_items data = JArr []"
    unfolding serves_def by auto
  show ?thesis unfolding fetch_round_def get using items by simp
qed

text \<open>
  While the pages are served and none of them is the last, the loop runs from round
  \<open>n\<close> to round \<open>k\<close>, with \<open>n * L\<close> items fetched at round \<open>n\<close>.
\<close>

lemma fetch_loop_prefix:
  assumes "0 < L" and "0 \<le> delay" and "\<forall>m<k. serves http_get (int L) xs m"
    and "k * L < length xs" and "n \<le> k"
  shows "fetch_loop http_get (int L) delay n (int (n * L)) (int (n * L)) (take (n * L) xs)
       = fetch_loop http_get (int L) delay k (int (k * L)) (int (k * L)) (take (k * L) xs)"
  using assms(5)
proof (induction "k - n" arbitrary: n)
  case 0
  then show ?case by simp
next
  case (Suc d)
  then have nk: "n < k" and d: "d = k - Suc n" and le: "Suc n \<le> k" by simp_all
  have "Suc n * L \<le> k * L" using le by (simp add: mult_le_mono1 del: mult_Suc)
  then have lt: "Suc n * L < length xs" using assms(4) by simp
  have sv: "serves http_get (int L) xs n" using assms(3) nk by simp
  have skip: "int (n * L) + int L = int (Suc n * L)" by simp
  have "fetch_loop http_get (int L) delay n (int (n * L)) (int (n * L)) (take (n * L) xs)
      = fetch_loop http_get (int L) delay (Suc n) (int (Suc n * L)) (int (Suc n * L))
           (take (Suc n * L) xs)"
    apply (subst fetch_loop.simps)
    apply (subst round_continue[OF assms(1,2) sv lt])
    apply (simp only: round.case skip)
    done
  also have "\<dots> = fetch_loop http_get (int L) delay k (int (k * L)) (int (k * L))
      (take (k * L) xs)"
    using Suc.hyps(1)[OF d le] .
  finally show ?case .
qed

lemma fetch_loop_start:
  "fetch_paginated_data http_get (int L) delay
     = fetch_loop http_get (int L) delay 0 (int (0 * L)) (int (0 * L)) (take (0 * L) xs)"
  by (simp add: fetch_paginated_data_def)

lemma fetch_complete:
  assumes "0 < L" and "0 \<le> delay"
    and "\<forall>n. n = 0 \<or> n * L < length xs \<longrightarrow> serves http_get (int L) xs n"
  shows "fetch_paginated_data http_get (int L) delay = Some (Inr xs)"
proof (cases "xs = []")
  case True
  then have "serves http_get (int L) [] 0" using assms(3) by simp
  from round_empty_collection[OF this] True show ?thesis
    unfolding fetch_paginated_data_def by (subst fetch_loop.simps) simp
next
  case False
  let ?k = "(length xs - 1) div L"
  have len: "0 < length xs" using False by simp
  have "?k * L \<le> length xs - 1" by simp
  then have lo: "?k * L < length xs" using len by linarith
  have "length xs - 1 < Suc ?k * L"
    using assms(1) dividend_less_div_times[of L "length xs - 1"] by (simp add: add.commute)
  then have hi: "length xs \<le> Suc ?k * L" by linarith
  have sv: "serves http_get (int L) xs ?k" using assms(3) lo by simp
  have "\<And>m. m < ?k \<Longrightarrow> m * L < length xs"
  proof -
    fix m assume "m < ?k"
    then have "m \<le> ?k" by simp
    then have "m * L \<le> ?k * L" by (rule mult_le_mono1)
    then show "m * L < length xs" using lo by (rule le_less_trans)
  qed
  then have pre: "\<forall>m<?k. serves http_get (int L) xs m" using assms(3) by simp
  have "fetch_paginated_data http_get (int L) delay
      = fetch_loop http_get (int L) delay 0 (int (0 * L)) (int (0 * L)) (take (0 * L) xs)"
    by (rule fetch_loop_start)
  also have "\<dots> = fetch_loop http_get (int L) delay ?k (int (?k * L)) (int (?k * L))
           (take (?k * L) xs)"
    by (rule fetch_loop_prefix[OF assms(1,2) pre lo]) simp
  also have "\<dots> = Some (Inr xs)"
    apply (subst fetch_loop.simps)
    apply (subst round_last[OF assms(1) sv lo hi])
    apply simp
    done
  finally show ?thesis .
qed

lemma fetch_stops_early:
  assumes "0 < L" and "0 \<le> delay" and "\<forall>m<k. serves http_get (int L) xs m"
    and "k = 0 \<or> k * L < length xs"
    and "http_get k (int L) (int k * int L) = RequestException
       \<or> (\<exists>data. http_get k (int L) (int k * int L) = Body (JObj data)
             \<and> \<not> truthy (page_items data))"
  shows "fetch_paginated_data http_get (int L) delay = Some (Inr (take (k * L) xs))"
proof -
  have stop: "fetch_round http_get (int L) delay k (int (k * L)) (int (k * L)) (take (k * L) xs)
      = Leave (Inr (take (k * L) xs))"
    using assms(5) by (auto simp: fetch_round_def)
  have "fetch_paginated_data http_get (int L) delay
      = fetch_loop http_get (int L) delay 0 (int (0 * L)) (int (0 * L)) (take (0 * L) xs)"
    by (rule fetch_loop_start)
  also have "\<dots> = fetch_loop http_get (int L) delay k (int (k * L)) (int (k * L))
           (take (k * L) xs)"
  proof (cases "k = 0")
    case True
    then show ?thesis by simp
  next
    case False
    then have "k * L < length xs" using assms(4) by simp
    then show ?thesis by (intro fetch_loop_prefix[OF assms(1,2,3)]) simp_all
  qed
  also have "\<dots> = Some (Inr (take (k * L) xs))"
    apply (subst fetch_loop.simps)
    apply (subst stop)
    apply simp
    done
  finally show ?thesis .
qed

text \<open>
  C3. With a positive page size and a delay that is not negative: when the server
  paginates a collection (every page well-formed with its collection key and the size of
  the collection as total), the fetch ends and returns exactly the collection, all
  \<open>total\<close> items in the order of increasing skip, stopping when the number fetched
  reaches the total. When instead request \<open>k\<close> raises an HTTP-level failure or yields
  zero items, the fetch ends there and returns the items of the \<open>k\<close> pages fetched
  before, not an error and not an empty result.
\<close>

theorem fetch_paginated_data_pages:
  assumes "0 < limit" and "0 \<le> delay"
  shows "(paginates http_get limit xs \<longrightarrow>
            fetch_paginated_data http_get limit delay = Some (Inr xs))
       \<and> (stops_at http_get limit xs k \<longrightarrow>
            fetch_paginated_data http_get limit delay = Some (Inr (take (k * nat limit) xs)))"
proof -
  define L where "L = nat limit"
  have limit: "limit = int L" and L: "0 < L" using assms(1) by (simp_all add: L_def)
  show ?thesis
    unfolding limit paginates_def stops_at_def
    using fetch_complete[OF L assms(2), of xs http_get]
      fetch_stops_early[OF L assms(2), of k http_get xs]
    by simp
qed

lemma example_server_serves: "serves example_server 2 example_items n"
  unfolding serves_def example_server_def
  by (simp add: page_items_def py_or_def dict_get_def dict_get_default_def example_items_def
      nat_mult_distrib)

theorem fetch_paginated_data_pages_witness:
  "(0::int) < 2 \<and> (0::rat) \<le> 1 / 2
   \<and> paginates example_server 2 example_items
   \<and> stops_at failing_server 2 example_items 1
   \<and> stops_at short_server 2 example_items 2
   \<and> fetch_paginated_data example_server 2 (1 / 2) = Some (Inr example_items)
   \<and> fetch_paginated_data failing_server 2 (1 / 2) = Some (Inr [JInt 1, JInt 2])
   \<and> fetch_paginated_data short_server 2 (1 / 2) = Some (Inr [JInt 1, JInt 2, JInt 3, JInt 4])"
proof -
  have l: "(0::int) < 2" and d: "(0::rat) \<le> 1 / 2" by simp_all
  have p: "paginates example_server 2 example_items"
    unfolding paginates_def using example_server_serves by simp
  have "serves failing_server 2 example_items 0"
    using example_server_serves[of 0] by (simp add: serves_def failing_server_def)
  then have f: "stops_at failing_server 2 example_items 1"
    by (simp add: stops_at_def failing_server_def example_items_def)
  have "serves short_server 2 example_items 0" "serves short_server 2 example_items 1"
    using example_server_serves[of 0] example_server_serves[of 1]
    by (simp_all add: serves_def short_server_def)
  then have "\<forall>m<2. serves short_server 2 example_items m"
    by (simp add: less_Suc_eq numeral_2_eq_2)
  then have s: "stops_at short_server 2 example_items 2"
    by (simp add: stops_at_def short_server_def example_items_def page_items_def py_or_def
        dict_get_def dict_get_default_def)
  show ?thesis
    using l d p f s
      fetch_paginated_data_pages[OF l d, of example_server example_items 0]
      fetch_paginated_data_pages[OF l d, of failing_server example_items 1]
      fetch_paginated_data_pages[OF l d, of short_server example_items 2]
    by (simp add: example_items_def)
qed

section \<open>The raw file\<close>

lemma splitlines_from_plain:
  "\<forall>c\<in>set s. \<not> is_linebreak c \<Longrightarrow>
     splitlines_from line (s @ rest) = splitlines_from (line @ s) rest"
  by (induction s arbitrary: line) simp_all

text \<open>Reading back what was joined gives the lines, when each of them is one line.\<close>

lemma splitlines_join:
  "\<forall>l\<in>set ls. one_line l \<Longrightarrow> read_from_gcs (join [CHR 0x0A] ls) = ls"
  unfolding read_from_gcs_def
proof (induction "[CHR 0x0A]" ls rule: join.induct)
  case 1
  then show ?case by simp
next
  case (2 x)
  then have "\<forall>c\<in>set x. \<not> is_linebreak c" and "x \<noteq> []"
    by (simp_all add: one_line_def list_all_iff)
  then show ?case
    using splitlines_from_plain[of x "[]" "[]"] by simp
next
  case (3 x y ys)
  have x: "\<forall>c\<in>set x. \<not> is_linebreak c" using 3(2) by (simp add: one_line_def list_all_iff)
  have "splitlines_from [] (x @ CHR 0x0A # join [CHR 0x0A] (y # ys))
      = splitlines_from ([] @ x) (CHR 0x0A # join [CHR 0x0A] (y # ys))"
    using x by (rule splitlines_from_plain)
  also have "\<dots> = x # splitlines_from [] (join [CHR 0x0A] (y # ys))"
    by (simp add: is_linebreak_def)
  also have "\<dots> = x # y # ys" using 3 by simp
  finally show ?case by simp
qed

text \<open>
  C9. When \<^verbatim>\<open>json.dumps\<close> writes every value as one line, a call of \<^verbatim>\<open>save_to_gcs\<close>
  reads the clock exactly once, and when the upload goes through it returns \<open>True\<close> and
  the lines of the blob it wrote are, item by item, the serialised objects
  \<^verbatim>\<open>{"metadata": {"extraction_timestamp": T}, "data": item}\<close> with that one reading \<open>T\<close>
  in every line. When the upload raises, the call returns \<open>False\<close>; it raises nothing.
\<close>

theorem save_to_gcs_shared_timestamp:
  assumes "\<forall>v. one_line (json_dumps v)"
  shows "save_to_gcs json_dumps clock True st data filename
           = (False, st\<lparr>clock_reads := Suc (clock_reads st)\<rparr>)
     \<and> (\<exists>st'. save_to_gcs json_dumps clock False st data filename = (True, st')
           \<and> clock_reads st' = Suc (clock_reads st)
           \<and> (\<exists>content. blobs st' filename = Some content
                 \<and> read_from_gcs content
                    = map (\<lambda>item. json_dumps (envelope (clock (clock_reads st)) item)) data))"
proof -
  let ?ls = "map (\<lambda>item. json_dumps (envelope (clock (clock_reads st)) item)) data"
  have "\<forall>l\<in>set ?ls. one_line l"
    using assms by auto
  then have "read_from_gcs (join [CHR 0x0A] ?ls) = ?ls"
    by (rule splitlines_join)
  then show ?thesis
    by (simp add: save_to_gcs_def Let_def envelope_def)
qed

lemma dumps_example_one_line: "one_line (dumps_example v)"
  by (simp add: dumps_example_def one_line_def is_linebreak_def)

theorem save_to_gcs_shared_timestamp_witness:
  "one_line (dumps_example (JInt 0))
   \<and> save_to_gcs dumps_example clock_example True storage_example [JInt 1, JInt 2]
        ''raw/products.json'' = (False, \<lparr>blobs = Map.empty, clock_reads = 1\<rparr>)
   \<and> (\<exists>st' content.
         save_to_gcs dumps_example clock_example False storage_example [JInt 1, JInt 2]
           ''raw/products.json'' = (True, st')
       \<and> blobs st' ''raw/products.json'' = Some content
       \<and> read_from_gcs content = [''{\"n\": 1}'', ''{\"n\": 2}''])"
proof -
  have h: "\<forall>v. one_line (dumps_example v)"
    using dumps_example_one_line by simp
  have e: "map (\<lambda>item. dumps_example (envelope (clock_example (clock_reads storage_example)) item))
             [JInt 1, JInt 2] = [''{\"n\": 1}'', ''{\"n\": 2}'']"
    by (simp add: dumps_example_def clock_example_def storage_example_def envelope_def)
  show ?thesis
    using h e
      save_to_gcs_shared_timestamp[OF h, of clock_example storage_example "[JInt 1, JInt 2]"
        "''raw/products.json''"]
    by (auto simp: storage_example_def)
qed

section \<open>The warehouse loaders\<close>

lemma bind_Inr: "bind (Inr x) f = f x"
  by (simp add: bind_def)

lemma bind_assoc: "bind (bind m f) g = bind m (\<lambda>x. bind (f x) g)"
  by (simp add: bind_def split: sum.splits)

lemma select_columns_present:
  "set labels \<subseteq> set (columns df) \<Longrightarrow>
     select_columns labels df =
       Inr \<lparr>columns = labels, rows = map (\<lambda>r. map (\<lambda>c. (c, cell r c)) labels) (rows df)\<rparr>"
proof -
  assume "set labels \<subseteq> set (columns df)"
  then have "filter (\<lambda>c. c \<notin> set (columns df)) labels = []"
    by (auto simp: filter_empty_conv)
  then show ?thesis by (simp add: select_columns_def)
qed

lemma filter_rows_map:
  "\<forall>r\<in>set rs. p (g r) = Inr (q r) \<Longrightarrow>
     filter_rows p (map g rs) = Inr (map g (filter q rs))"
  by (induction rs) (simp_all add: bind_def)

lemma parse_gcs_path_example:
  "parse_gcs_path ''gs://bucket/cleanse/table.csv'' = Inr (''bucket'', ''cleanse/table.csv'')"
  by (simp add: parse_gcs_path_def startswith_def split_once_def)

subsection \<open>Products\<close>

text \<open>After the coercion the comparison is defined, and it is the one on the number.\<close>

lemma num_gt_to_numeric:
  "num_gt (to_numeric parse_number v) 50 = Inr (exceeds (numeric_value parse_number v) 50)"
proof (cases v)
  case (JFloat x)
  then show ?thesis by (cases x) (simp_all add: numeric_value_def)
next
  case (JStr s)
  show ?thesis
  proof (cases "parse_number s")
    case None
    with JStr show ?thesis by (simp add: numeric_value_def)
  next
    case (Some x)
    with JStr show ?thesis by (cases x) (simp_all add: numeric_value_def)
  qed
qed (simp_all add: numeric_value_def)

lemma products_row_price:
  "num_gt (cell (products_row parse_number r) ''price'') 50 = Inr (price_kept parse_number r)"
  by (simp add: products_row_def cell_def dict_get_default_def price_kept_def
      num_gt_to_numeric[unfolded cell_def dict_get_default_def])

lemma products_table_rows:
  assumes "set products_required \<subseteq> set (columns df)"
  shows "bind (select_columns products_required df) (\<lambda>products_table.
     bind (rename_columns
            [''sgk_product_id'', ''product_id'', ''name'', ''category'', ''brand'', ''price'',
             ''record_create_name'', ''record_create_datetime'', ''record_update_name'',
             ''record_update_datetime'', ''source_system_code''] products_table)
       (\<lambda>products_table.
          Inr (map_column ''price'' (to_numeric parse_number) products_table)))
    = Inr \<lparr>columns =
            [''sgk_product_id'', ''product_id'', ''name'', ''category'', ''brand'', ''price'',
             ''record_create_name'', ''record_create_datetime'', ''record_update_name'',
             ''record_update_datetime'', ''source_system_code''],
           rows = map (products_row parse_number) (rows df)\<rparr>"
proof -
  have sel: "select_columns products_required df =
       Inr \<lparr>columns = products_required,
            rows = map (\<lambda>r. map (\<lambda>c. (c, cell r c)) products_required) (rows df)\<rparr>"
    using assms by (rule select_columns_present)
  show ?thesis
    unfolding sel
    by (simp add: products_required_def bind_def rename_columns_def map_column_def
        products_row_def cell_def dict_get_default_def)
qed

text \<open>
  C6. When the cleansed table is read and has the required columns, the cleaned
  products table consists of the warehouse rows of exactly those input rows whose price,
  taken as a number (null when it is no number), is strictly greater than 50, in their
  order. A price of 49.99 is not greater, a price of 50.01 is, and a price that does
  not parse is null and not greater.
\<close>

theorem clean_products_price_filter:
  assumes "parse_gcs_path input_file = Inr (bucket_name, blob_name)"
    and "read_gcs_csv bucket_name blob_name = Inr df"
    and "set products_required \<subseteq> set (columns df)"
  shows "(\<exists>out. clean_products_table read_gcs_csv parse_number input_file = Inr out
           \<and> rows out
              = map (products_row parse_number) (filter (price_kept parse_number) (rows df)))
     \<and> \<not> exceeds (numeric_value parse_number (JFloat (Finite (4999 / 100)))) 50
     \<and> exceeds (numeric_value parse_number (JFloat (Finite (5001 / 100)))) 50
     \<and> (parse_number s = None \<longrightarrow> \<not> exceeds (numeric_value parse_number (JStr s)) 50)"
proof -
  let ?p = "\<lambda>r. num_gt (cell r ''price'') 50"
  let ?names = "[''sgk_product_id'', ''product_id'', ''name'', ''category'', ''brand'', ''price'',
             ''record_create_name'', ''record_create_datetime'', ''record_update_name'',
             ''record_update_datetime'', ''source_system_code'']"
  let ?t = "\<lparr>columns = ?names, rows = map (products_row parse_number) (rows df)\<rparr>"
  have "clean_products_table read_gcs_csv parse_number input_file
      = bind (bind (select_columns products_required df) (\<lambda>products_table.
         bind (rename_columns ?names products_table) (\<lambda>products_table.
          Inr (map_column ''price'' (to_numeric parse_number) products_table))))
          (where_rows ?p)"
    by (simp add: clean_products_table_def assms(1,2) bind_Inr bind_assoc products_required_def)
  also have "\<dots> = where_rows ?p ?t"
    unfolding products_table_rows[OF assms(3)] by (rule bind_Inr)
  also have "\<dots> = Inr (?t\<lparr>rows := map (products_row parse_number)
                           (filter (price_kept parse_number) (rows df))\<rparr>)"
    using filter_rows_map[of "rows df" ?p "products_row parse_number" "price_kept parse_number"]
    by (simp add: where_rows_def bind_def products_row_price)
  finally have "clean_products_table read_gcs_csv parse_number input_file
      = Inr (?t\<lparr>rows := map (products_row parse_number)
                           (filter (price_kept parse_number) (rows df))\<rparr>)" .
  then have "\<exists>out. clean_products_table read_gcs_csv parse_number input_file = Inr out
           \<and> rows out
              = map (products_row parse_number) (filter (price_kept parse_number) (rows df))"
    by simp
  moreover have "\<not> exceeds (numeric_value parse_number (JFloat (Finite (4999 / 100)))) 50"
    and "exceeds (numeric_value parse_number (JFloat (Finite (5001 / 100)))) 50"
    and "parse_number s = None \<longrightarrow> \<not> exceeds (numeric_value parse_number (JStr s)) 50"
    by (simp_all add: numeric_value_def)
  ultimately show ?thesis by blast
qed

theorem clean_products_price_filter_witness:
  "parse_gcs_path ''gs://bucket/cleanse/table.csv'' = Inr (''bucket'', ''cleanse/table.csv'')
   \<and> read_example products_frame_example ''bucket'' ''cleanse/table.csv''
       = Inr products_frame_example
   \<and> list_all (\<lambda>c. c \<in> set (columns products_frame_example)) products_required
   \<and> (\<exists>out. clean_products_table (read_example products_frame_example) (\<lambda>s. None)
               ''gs://bucket/cleanse/table.csv'' = Inr out
          \<and> map (\<lambda>r. map_of r ''price'') (rows out) = [Some (JFloat (Finite (5001 / 100)))])"
proof -
  have h1: "parse_gcs_path ''gs://bucket/cleanse/table.csv''
      = Inr (''bucket'', ''cleanse/table.csv'')"
    by (rule parse_gcs_path_example)
  have h2: "read_example products_frame_example ''bucket'' ''cleanse/table.csv''
      = Inr products_frame_example"
    by (simp add: read_example_def)
  have h3: "set products_required \<subseteq> set (columns products_frame_example)"
    by (auto simp: products_frame_example_def)
  from clean_products_price_filter[where read_gcs_csv = "read_example products_frame_example"
      and parse_number = "\<lambda>s. None", OF h1 h2 h3]
  obtain out where out: "clean_products_table (read_example products_frame_example) (\<lambda>s. None)
               ''gs://bucket/cleanse/table.csv'' = Inr out"
    and rs: "rows out = map (products_row (\<lambda>s. None))
               (filter (price_kept (\<lambda>s. None)) (rows products_frame_example))"
    by blast
  have "map (\<lambda>r. map_of r ''price'') (rows out) = [Some (JFloat (Finite (5001 / 100)))]"
    unfolding rs
    by (simp add: products_frame_example_def price_kept_def numeric_value_def cell_def
        dict_get_default_def products_row_def)
  then show ?thesis using h1 h2 h3 out by (simp add: list_all_iff subset_iff)
qed

subsection \<open>Users and carts\<close>

lemma users_table_rows:
  assumes "set users_required \<subseteq> set (columns df)"
  shows "bind (select_columns users_required df) (\<lambda>users_table.
     bind (rename_columns
            [''sgk_user_id'', ''user_id'', ''first_name'', ''last_name'', ''gender'', ''age'',
             ''street'', ''city'', ''postal_code'',
             ''record_create_name'', ''record_create_datetime'', ''record_update_name'',
             ''record_update_datetime'', ''source_system_code''] users_table) (\<lambda>users_table.
       Inr (map_column ''age'' (to_numeric parse_number) users_table)))
    = Inr \<lparr>columns =
            [''sgk_user_id'', ''user_id'', ''first_name'', ''last_name'', ''gender'', ''age'',
             ''street'', ''city'', ''postal_code'',
             ''record_create_name'', ''record_create_datetime'', ''record_update_name'',
             ''record_update_datetime'', ''source_system_code''],
           rows = map (users_row parse_number) (rows df)\<rparr>"
proof -
  have sel: "select_columns users_required df =
       Inr \<lparr>columns = users_required,
            rows = map (\<lambda>r. map (\<lambda>c. (c, cell r c)) users_required) (rows df)\<rparr>"
    using assms by (rule select_columns_present)
  show ?thesis
    unfolding sel
    by (simp add: users_required_def bind_def rename_columns_def map_column_def
        users_row_def cell_def dict_get_default_def)
qed

lemma carts_table_rows:
  assumes "set carts_required \<subseteq> set (columns df)"
  shows "bind (select_columns carts_required df) (\<lambda>carts_table.
     bind (rename_columns
            [''sgk_cart_id'', ''cart_id'', ''user_id'', ''product_id'', ''quantity'', ''price'',
             ''total_cart_value'',
             ''record_create_name'', ''record_create_datetime'', ''record_update_name'',
             ''record_update_datetime'', ''source_system_code''] carts_table) (\<lambda>carts_table.
       Inr (map_column ''price'' (to_numeric parse_number)
         (map_column ''quantity'' (to_numeric parse_number) carts_table))))
    = Inr \<lparr>columns =
            [''sgk_cart_id'', ''cart_id'', ''user_id'', ''product_id'', ''quantity'', ''price'',
             ''total_cart_value'',
             ''record_create_name'', ''record_create_datetime'', ''record_update_name'',
             ''record_update_datetime'', ''source_system_code''],
           rows = map (carts_row parse_number) (rows df)\<rparr>"
proof -
  have sel: "select_columns carts_required df =
       Inr \<lparr>columns = carts_required,
            rows = map (\<lambda>r. map (\<lambda>c. (c, cell r c)) carts_required) (rows df)\<rparr>"
    using assms by (rule select_columns_present)
  show ?thesis
    unfolding sel
    by (simp add: carts_required_def bind_def rename_columns_def map_column_def
        carts_row_def cell_def dict_get_default_def)
qed

lemma users_row_kept:
  "list_all (\<lambda>c. \<not> isna (cell (users_row parse_number r) c))
       [''user_id'', ''first_name'', ''last_name'']
     = users_kept r"
  by (simp add: users_row_def users_kept_def cell_def dict_get_default_def)

lemma carts_row_kept:
  "list_all (\<lambda>c. \<not> isna (cell (carts_row parse_number r) c))
       [''cart_id'', ''user_id'', ''product_id'']
     = carts_kept r"
  by (simp add: carts_row_def carts_kept_def cell_def dict_get_default_def)

lemma clean_users_table_rows:
  assumes "parse_gcs_path input_file = Inr (bucket_name, blob_name)"
    and "read_gcs_csv bucket_name blob_name = Inr df"
    and req: "set users_required \<subseteq> set (columns df)"
  shows "\<exists>out. clean_users_table read_gcs_csv parse_number input_file = Inr out
               \<and> rows out = map (users_row parse_number) (filter users_kept (rows df))"
proof -
  let ?names = "[''sgk_user_id'', ''user_id'', ''first_name'', ''last_name'', ''gender'', ''age'',
             ''street'', ''city'', ''postal_code'',
             ''record_create_name'', ''record_create_datetime'', ''record_update_name'',
             ''record_update_datetime'', ''source_system_code'']"
  let ?t = "\<lparr>columns = ?names, rows = map (users_row parse_number) (rows df)\<rparr>"
  have "clean_users_table read_gcs_csv parse_number input_file
      = bind (bind (select_columns users_required df) (\<lambda>users_table.
         bind (rename_columns ?names users_table) (\<lambda>users_table.
          Inr (map_column ''age'' (to_numeric parse_number) users_table))))
          (dropna [''user_id'', ''first_name'', ''last_name''])"
    by (simp add: clean_users_table_def assms(1,2) bind_Inr bind_assoc users_required_def)
  also have "\<dots> = dropna [''user_id'', ''first_name'', ''last_name''] ?t"
    unfolding users_table_rows[OF req] by (rule bind_Inr)
  also have "\<dots> = Inr (?t\<lparr>rows := map (users_row parse_number) (filter users_kept (rows df))\<rparr>)"
    using users_row_kept[of parse_number] by (simp add: dropna_def filter_map comp_def)
  finally show ?thesis by simp
qed

lemma clean_carts_table_rows:
  assumes "parse_gcs_path input_file = Inr (bucket_name, blob_name)"
    and "read_gcs_csv bucket_name blob_name = Inr df"
    and req: "set carts_required \<subseteq> set (columns df)"
  shows "\<exists>out. clean_carts_table read_gcs_csv parse_number input_file = Inr out
               \<and> rows out = map (carts_row parse_number) (filter carts_kept (rows df))"
proof -
  let ?names = "[''sgk_cart_id'', ''cart_id'', ''user_id'', ''product_id'', ''quantity'', ''price'',
             ''total_cart_value'',
             ''record_create_name'', ''record_create_datetime'', ''record_update_name'',
             ''record_update_datetime'', ''source_system_code'']"
  let ?t = "\<lparr>columns = ?names, rows = map (carts_row parse_number) (rows df)\<rparr>"
  have "clean_carts_table read_gcs_csv parse_number input_file
      = bind (bind (select_columns carts_required df) (\<lambda>carts_table.
         bind (rename_columns ?names carts_table) (\<lambda>carts_table.
          Inr (map_column ''price'' (to_numeric parse_number)
            (map_column ''quantity'' (to_numeric parse_number) carts_table)))))
          (dropna [''cart_id'', ''user_id'', ''product_id''])"
    by (simp add: clean_carts_table_def assms(1,2) bind_Inr bind_assoc carts_required_def)
  also have "\<dots> = dropna [''cart_id'', ''user_id'', ''product_id''] ?t"
    unfolding carts_table_rows[OF req] by (rule bind_Inr)
  also have "\<dots> = Inr (?t\<lparr>rows := map (carts_row parse_number) (filter carts_kept (rows df))\<rparr>)"
    using carts_row_kept[of parse_number] by (simp add: dropna_def filter_map comp_def)
  finally show ?thesis by simp
qed

text \<open>
  C8, as amended. When the cleansed table is read and has the required columns: the
  cleaned users table consists of the warehouse rows of exactly those input rows whose
  user id, first name and last name are all non-null, and the cleaned carts table of
  exactly those whose cart id, user id and product id are all non-null.
\<close>

theorem clean_tables_null_filter:
  assumes "parse_gcs_path input_file = Inr (bucket_name, blob_name)"
    and "read_gcs_csv bucket_name blob_name = Inr df"
  shows "(set users_required \<subseteq> set (columns df) \<longrightarrow>
            (\<exists>out. clean_users_table read_gcs_csv parse_number input_file = Inr out
               \<and> rows out = map (users_row parse_number) (filter users_kept (rows df))))
       \<and> (set carts_required \<subseteq> set (columns df) \<longrightarrow>
            (\<exists>out. clean_carts_table read_gcs_csv parse_number input_file = Inr out
               \<and> rows out = map (carts_row parse_number) (filter carts_kept (rows df))))"
  using clean_users_table_rows[where read_gcs_csv = read_gcs_csv, OF assms]
    clean_carts_table_rows[where read_gcs_csv = read_gcs_csv, OF assms]
  by blast

lemma users_frame_example_required:
  "set users_required \<subseteq> set (columns users_frame_example)"
  by (simp add: users_frame_example_def)

lemma read_example_table:
  "read_example df ''bucket'' ''cleanse/table.csv'' = Inr df"
  by (simp add: read_example_def)

theorem clean_tables_null_filter_witness:
  "parse_gcs_path ''gs://bucket/cleanse/table.csv'' = Inr (''bucket'', ''cleanse/table.csv'')
   \<and> read_example carts_frame_example ''bucket'' ''cleanse/table.csv'' = Inr carts_frame_example
   \<and> list_all (\<lambda>c. c \<in> set (columns carts_frame_example)) carts_required
   \<and> read_example users_frame_example ''bucket'' ''cleanse/table.csv'' = Inr users_frame_example
   \<and> list_all (\<lambda>c. c \<in> set (columns users_frame_example)) users_required
   \<and> (\<exists>out. clean_carts_table (read_example carts_frame_example) (\<lambda>s. None)
               ''gs://bucket/cleanse/table.csv'' = Inr out
          \<and> map (\<lambda>r. map_of r ''product_id'') (rows out) = [Some (JInt 168)])
   \<and> (\<exists>out. clean_users_table (read_example users_frame_example) (\<lambda>s. None)
               ''gs://bucket/cleanse/table.csv'' = Inr out
          \<and> rows out = map (users_row (\<lambda>s. None)) (filter users_kept (rows users_frame_example)))"
proof -
  have h1: "parse_gcs_path ''gs://bucket/cleanse/table.csv''
      = Inr (''bucket'', ''cleanse/table.csv'')"
    by (rule parse_gcs_path_example)
  have h2: "read_example carts_frame_example ''bucket'' ''cleanse/table.csv''
      = Inr carts_frame_example"
    and h2': "read_example users_frame_example ''bucket'' ''cleanse/table.csv''
      = Inr users_frame_example"
    by (rule read_example_table)+
  have h3: "set carts_required \<subseteq> set (columns carts_frame_example)"
    by (simp add: carts_frame_example_def)
  note h3' = users_frame_example_required
  from clean_tables_null_filter[where read_gcs_csv = "read_example carts_frame_example"
      and parse_number = "\<lambda>s. None", OF h1 h2] h3
  obtain out where out: "clean_carts_table (read_example carts_frame_example) (\<lambda>s. None)
               ''gs://bucket/cleanse/table.csv'' = Inr out"
    and rs: "rows out = map (carts_row (\<lambda>s. None)) (filter carts_kept (rows carts_frame_example))"
    by blast
  have c: "map (\<lambda>r. map_of r ''product_id'') (rows out) = [Some (JInt 168)]"
    unfolding rs
    by (simp add: carts_frame_example_def carts_required_def carts_kept_def cell_def
        dict_get_default_def carts_row_def)
  from clean_tables_null_filter[where read_gcs_csv = "read_example users_frame_example"
      and parse_number = "\<lambda>s. None", OF h1 h2'] h3'
  have u: "\<exists>out. clean_users_table (read_example users_frame_example) (\<lambda>s. None)
               ''gs://bucket/cleanse/table.csv'' = Inr out
          \<and> rows out = map (users_row (\<lambda>s. None)) (filter users_kept (rows users_frame_example))"
    by blast
  show ?thesis using h1 h2 h2' h3 h3' out c u by (simp add: list_all_iff subset_iff)
qed

text \<open>
  C8 as stated fails for users: the one row of the example table has the non-null user
  id 1 and no first name, and it does not survive the cleaning.
\<close>

theorem clean_users_table_counterexample:
  "map (\<lambda>r. isna (cell r ''user_id'')) (rows users_frame_example) = [False]
   \<and> (\<exists>out. clean_users_table (read_example users_frame_example) (\<lambda>s. None)
               ''gs://bucket/cleanse/table.csv'' = Inr out
          \<and> rows out = [])"
proof -
  from clean_users_table_rows[where read_gcs_csv = "read_example users_frame_example"
      and parse_number = "\<lambda>s. None", OF parse_gcs_path_example read_example_table
      users_frame_example_required]
  obtain out where out: "clean_users_table (read_example users_frame_example) (\<lambda>s. None)
               ''gs://bucket/cleanse/table.csv'' = Inr out"
    and rs: "rows out = map (users_row (\<lambda>s. None)) (filter users_kept (rows users_frame_example))"
    by blast
  have "filter users_kept (rows users_frame_example) = []"
    by (simp add: users_frame_example_def users_required_def users_kept_def cell_def
        dict_get_default_def)
  then have "rows out = []" using rs by simp
  moreover have "map (\<lambda>r. isna (cell r ''user_id'')) (rows users_frame_example) = [False]"
    by (simp add: users_frame_example_def users_required_def cell_def dict_get_default_def)
  ultimately show ?thesis using out by blast
qed

end
